theory Spec2Isabelle
  imports Complex_Main "HOL-Library.AList"
begin

section \<open>The realtime console: session lifecycle and event channel\<close>

text \<open>
  A shallow embedding of \<^verbatim>\<open>src/client/components/App.jsx\<close>. The component holds three
  pieces of React state (\<^verbatim>\<open>isSessionActive\<close>, \<^verbatim>\<open>events\<close>, \<^verbatim>\<open>dataChannel\<close>) and two refs
  (\<^verbatim>\<open>peerConnection\<close>, \<^verbatim>\<open>audioElement\<close>). Its functions call browser objects; each such call
  is recorded, in order, as an effect. What the browser answers (HTTP responses, microphone
  permission, the channel's ready state, the clock, the random identifier) is an explicit
  input of the function that asks for it.
\<close>

subsection \<open>JavaScript values\<close>

text \<open>
  The values a message or a parsed response body is made of. An array is an object too and
  may carry named properties beside its elements. Of a number only its truthiness is ever
  observed; numbers are reals (a JSON text denotes no NaN).
\<close>

datatype jsval =
    JUndefined
  | JNull
  | JBool bool
  | JNum real
  | JStr string
  | JArr "jsval list" "(string \<times> jsval) list"
  | JObj "(string \<times> jsval) list"

datatype error =
    Error string  \<comment> \<open>\<^verbatim>\<open>throw new Error(msg)\<close> of the source\<close>
  | TypeError  \<comment> \<open>property access on null or undefined, property creation on a primitive\<close>
  | SyntaxError  \<comment> \<open>a body or payload that is not JSON\<close>
  | Fetch_rejected  \<comment> \<open>\<^verbatim>\<open>fetch\<close> rejects: no response at all\<close>
  | CreateOffer_rejected
  | SetLocalDescription_rejected
  | SetRemoteDescription_rejected  \<comment> \<open>the browser refuses the answer description\<close>

text \<open>JavaScript truthiness: what \<^verbatim>\<open>a || b\<close> and \<^verbatim>\<open>if (a)\<close> test.\<close>

fun truthy :: "jsval \<Rightarrow> bool" where
  "truthy JUndefined = False"
| "truthy JNull = False"
| "truthy (JBool b) = b"
| "truthy (JNum n) = (n \<noteq> 0)"
| "truthy (JStr s) = (s \<noteq> [])"
| "truthy (JArr xs ps) = True"
| "truthy (JObj fs) = True"

definition lookup :: "(string \<times> jsval) list \<Rightarrow> string \<Rightarrow> jsval" where
  "lookup fs k = (case map_of fs k of None \<Rightarrow> JUndefined | Some v \<Rightarrow> v)"

text \<open>
  Reading \<^verbatim>\<open>v.k\<close>, for the keys this program reads (\<^verbatim>\<open>client_secret\<close>, \<^verbatim>\<open>value\<close>,
  \<^verbatim>\<open>event_id\<close>, \<^verbatim>\<open>timestamp\<close>), none of which a built-in prototype defines: a missing
  property reads as undefined, and reading from null or undefined throws.
\<close>

fun get_prop :: "jsval \<Rightarrow> string \<Rightarrow> error + jsval" where
  "get_prop JUndefined k = Inl TypeError"
| "get_prop JNull k = Inl TypeError"
| "get_prop (JObj fs) k = Inr (lookup fs k)"
| "get_prop (JArr xs ps) k = Inr (lookup ps k)"
| "get_prop (JBool b) k = Inr JUndefined"
| "get_prop (JNum n) k = Inr JUndefined"
| "get_prop (JStr s) k = Inr JUndefined"

text \<open>
  Writing \<^verbatim>\<open>v.k = x\<close> in module code, which is strict: an existing property keeps its place,
  a new one is added last, and a write to a primitive, to null or to undefined throws.
\<close>

fun set_prop :: "jsval \<Rightarrow> string \<Rightarrow> jsval \<Rightarrow> error + jsval" where
  "set_prop (JObj fs) k x = Inr (JObj (AList.update k x fs))"
| "set_prop (JArr xs ps) k x = Inr (JArr xs (AList.update k x ps))"
| "set_prop JUndefined k x = Inl TypeError"
| "set_prop JNull k x = Inl TypeError"
| "set_prop (JBool b) k x = Inl TypeError"
| "set_prop (JNum n) k x = Inl TypeError"
| "set_prop (JStr s) k x = Inl TypeError"

text \<open>The statement \<^verbatim>\<open>v.k = v.k || d\<close>.\<close>

definition or_assign :: "jsval \<Rightarrow> string \<Rightarrow> jsval \<Rightarrow> error + jsval" where
  "or_assign v k d =
     (case get_prop v k of
        Inl e \<Rightarrow> Inl e
      | Inr old \<Rightarrow> set_prop v k (if truthy old then old else d))"

text \<open>The expression \<^verbatim>\<open>v?.k\<close>.\<close>

definition opt_chain :: "jsval \<Rightarrow> string \<Rightarrow> error + jsval" where
  "opt_chain v k =
     (case v of JUndefined \<Rightarrow> Inr JUndefined | JNull \<Rightarrow> Inr JUndefined | _ \<Rightarrow> get_prop v k)"

text \<open>\<^verbatim>\<open>sessionData.client_secret?.value\<close> (line 41).\<close>

definition client_secret_value :: "jsval \<Rightarrow> error + jsval" where
  "client_secret_value sessionData =
     (case get_prop sessionData ''client_secret'' of
        Inl e \<Rightarrow> Inl e
      | Inr cs \<Rightarrow> opt_chain cs ''value'')"

definition is_object :: "jsval \<Rightarrow> bool" where
  "is_object v = (case v of JObj fs \<Rightarrow> True | JArr xs ps \<Rightarrow> True | _ \<Rightarrow> False)"

subsection \<open>Browser objects, effects and the state of the component\<close>

type_synonym handle = nat  \<comment> \<open>the identity of a browser object\<close>

datatype ready_state = Connecting | Open | Closing | Closed

datatype header_value =
    Plain string
  | Bearer jsval  \<comment> \<open>the template literal \<^verbatim>\<open>`Bearer ${v}`\<close>\<close>

datatype effect =
    Fetch string string "(string \<times> header_value) list" string
      \<comment> \<open>\<^verbatim>\<open>fetch(url, {method, headers, body})\<close>\<close>
  | New_RTCPeerConnection handle
  | Create_audio handle  \<comment> \<open>\<^verbatim>\<open>document.createElement("audio")\<close>, autoplay set\<close>
  | Append_child handle  \<comment> \<open>\<^verbatim>\<open>document.body.appendChild\<close>\<close>
  | Set_ontrack handle
  | GetUserMedia
  | AddTrack handle handle
  | CreateDataChannel handle string handle
  | CreateOffer handle
  | SetLocalDescription handle string
  | SetRemoteDescription handle string
  | DC_send handle string  \<comment> \<open>\<^verbatim>\<open>dc.send(payload)\<close>: one payload transmitted\<close>
  | DC_close handle
  | Track_stop handle
  | PC_close handle
  | Clear_srcObject handle  \<comment> \<open>\<^verbatim>\<open>el.srcObject = null\<close>\<close>
  | Remove_child handle  \<comment> \<open>\<^verbatim>\<open>document.body.removeChild\<close>\<close>
  | Console_error string "error option"

text \<open>
  The React state and refs of the component, the part of the browser it reads back
  (\<^verbatim>\<open>readyState\<close> of a channel, \<^verbatim>\<open>getSenders()\<close> of a connection, each sender with its track
  or none), and the effects performed so far, oldest first. A state field holds the value
  last given to its setter.
\<close>

record world =
  isSessionActive :: bool
  events :: "jsval list"
  dataChannel :: "handle option"
  peerConnection :: "handle option"
  audioElement :: "handle option"
  readyState :: "handle \<Rightarrow> ready_state"
  senders :: "handle \<Rightarrow> handle option list"
  next_handle :: handle
  effects :: "effect list"

text \<open>The first render: \<^verbatim>\<open>useState(false)\<close>, \<^verbatim>\<open>useState([])\<close>, \<^verbatim>\<open>useState(null)\<close>, \<^verbatim>\<open>useRef(null)\<close>.\<close>

definition initial_world :: world where
  "initial_world =
     \<lparr>isSessionActive = False, events = [], dataChannel = None, peerConnection = None,
      audioElement = None, readyState = (\<lambda>h. Closed), senders = (\<lambda>h. []),
      next_handle = 0, effects = []\<rparr>"

definition emit :: "effect \<Rightarrow> world \<Rightarrow> world" where
  "emit e w = w\<lparr>effects := effects w @ [e]\<rparr>"

definition alloc :: "world \<Rightarrow> handle \<times> world" where
  "alloc w = (next_handle w, w\<lparr>next_handle := Suc (next_handle w)\<rparr>)"

text \<open>The effects a run added to those of the world it started from.\<close>

definition new_effects :: "world \<Rightarrow> world \<Rightarrow> effect list" where
  "new_effects w w' = drop (length (effects w)) (effects w')"

subsection \<open>Configuration and built-ins\<close>

text \<open>
  Lines 15 to 19. The first three constants come from the build environment and are
  parameters; the last two are literals of the source.
\<close>

record config =
  WEBRTC_URL :: string
  SESSIONS_URL :: string
  API_KEY :: string

definition DEPLOYMENT :: string where
  "DEPLOYMENT = ''process.env.DEPLOYMENT''"

definition VOICE :: string where
  "VOICE = ''verse''"

text \<open>\<^verbatim>\<open>JSON.stringify\<close> and \<^verbatim>\<open>JSON.parse\<close> (none when the text is not JSON) are parameters.\<close>

record js =
  JSON_stringify :: "jsval \<Rightarrow> string"
  JSON_parse :: "string \<Rightarrow> jsval option"

text \<open>\<^verbatim>\<open>Response.ok\<close>: the status is in the range 200 to 299.\<close>

definition ok :: "nat \<Rightarrow> bool" where
  "ok status = (200 \<le> status \<and> status \<le> 299)"

record 'b response =
  resp_status :: nat
  resp_body :: 'b

text \<open>
  What the browser and the network answer during one run of \<^verbatim>\<open>startSession\<close>, one field
  for each call that waits for an answer.
\<close>

record start_env =
  session_fetch :: "jsval option response option"
    \<comment> \<open>none: fetch rejects; the body is what \<^verbatim>\<open>.json()\<close> gives, none when that rejects\<close>
  microphone :: bool
    \<comment> \<open>whether \<^verbatim>\<open>getUserMedia\<close> gives a stream with an audio track that \<^verbatim>\<open>addTrack\<close> takes\<close>
  create_offer :: "string option"  \<comment> \<open>the SDP of the offer, none when \<^verbatim>\<open>createOffer\<close> rejects\<close>
  set_local_ok :: bool
  sdp_fetch :: "string response option"  \<comment> \<open>the body is what \<^verbatim>\<open>.text()\<close> gives\<close>
  accepts_answer :: "string \<Rightarrow> bool"  \<comment> \<open>whether \<^verbatim>\<open>setRemoteDescription\<close> takes this SDP\<close>
  dc_ready :: ready_state  \<comment> \<open>\<^verbatim>\<open>dc.readyState\<close> when line 97 reads it\<close>

subsection \<open>stopSession (lines 113 to 136)\<close>

text \<open>The \<^verbatim>\<open>forEach\<close> over the senders: a sender with a track has it stopped.\<close>

fun stop_tracks :: "handle option list \<Rightarrow> world \<Rightarrow> world" where
  "stop_tracks [] w = w"
| "stop_tracks (s # ss) w =
     stop_tracks ss (case s of None \<Rightarrow> w | Some t \<Rightarrow> emit (Track_stop t) w)"

text \<open>
  \<^verbatim>\<open>dataChannel\<close> is a constant of the render in which the function was created: the first
  argument is that captured value, which a later \<^verbatim>\<open>setDataChannel\<close> does not change. The
  refs are read from the world.
\<close>

definition stopSession :: "handle option \<Rightarrow> world \<Rightarrow> world" where
  "stopSession captured w =
     (let w1 = (case captured of
                  None \<Rightarrow> w
                | Some dc \<Rightarrow> (emit (DC_close dc) w)\<lparr>dataChannel := None\<rparr>);
          w2 = (case peerConnection w1 of
                  None \<Rightarrow> w1
                | Some pc \<Rightarrow>
                    (emit (PC_close pc) (stop_tracks (senders w1 pc) w1))\<lparr>peerConnection := None\<rparr>);
          w3 = (case audioElement w2 of
                  None \<Rightarrow> w2
                | Some el \<Rightarrow>
                    (emit (Remove_child el) (emit (Clear_srcObject el) w2))\<lparr>audioElement := None\<rparr>)
      in w3\<lparr>isSessionActive := False\<rparr>)"

subsection \<open>startSession (lines 21 to 111)\<close>

definition provisioning_request :: "config \<Rightarrow> js \<Rightarrow> effect" where
  "provisioning_request cfg j =
     Fetch (SESSIONS_URL cfg) ''POST''
       [(''api-key'', Plain (API_KEY cfg)), (''Content-Type'', Plain ''application/json'')]
       (JSON_stringify j (JObj [(''model'', JStr DEPLOYMENT), (''voice'', JStr VOICE)]))"

definition signaling_request :: "config \<Rightarrow> jsval \<Rightarrow> string \<Rightarrow> effect" where
  "signaling_request cfg key sdp =
     Fetch (WEBRTC_URL cfg @ ''?model='' @ DEPLOYMENT) ''POST''
       [(''Authorization'', Bearer key), (''Content-Type'', Plain ''application/sdp'')]
       sdp"

text \<open>Lines 24 to 41: the credential, or the error thrown, and the world at that point.\<close>

definition provision :: "config \<Rightarrow> js \<Rightarrow> start_env \<Rightarrow> world \<Rightarrow> (error + jsval) \<times> world" where
  "provision cfg j env w =
     (let w1 = emit (provisioning_request cfg j) w in
      case session_fetch env of
        None \<Rightarrow> (Inl Fetch_rejected, w1)
      | Some r \<Rightarrow>
          if \<not> ok (resp_status r) then (Inl (Error ''Failed to create session''), w1)
          else (case resp_body r of
                  None \<Rightarrow> (Inl SyntaxError, w1)
                | Some sessionData \<Rightarrow> (client_secret_value sessionData, w1)))"

text \<open>
  Lines 44 to 69: the connection, the playback element, the microphone track when there is
  one (its failure is logged and the run goes on), the data channel.
\<close>

definition build_connection :: "start_env \<Rightarrow> world \<Rightarrow> handle \<times> handle \<times> world" where
  "build_connection env w =
     (let (pc, w1) = alloc w;
          w2 = (emit (New_RTCPeerConnection pc) w1)\<lparr>peerConnection := Some pc\<rparr>;
          (el, w3) = alloc w2;
          w4 = emit (Append_child el) ((emit (Create_audio el) w3)\<lparr>audioElement := Some el\<rparr>);
          w5 = emit GetUserMedia (emit (Set_ontrack pc) w4);
          w6 = (if microphone env
                then (let (t, w') = alloc w5
                      in (emit (AddTrack pc t) w')
                           \<lparr>senders := (senders w')(pc := senders w' pc @ [Some t])\<rparr>)
                else emit (Console_error ''Error accessing microphone:'' None) w5);
          (dc, w7) = alloc w6;
          w8 = (emit (CreateDataChannel pc ''azure-oai-events'' dc) w7)
                 \<lparr>readyState := (readyState w7)(dc := Connecting), dataChannel := Some dc\<rparr>
      in (pc, dc, w8))"

text \<open>Lines 72 to 94: the offer, the signaling request, the answer.\<close>

definition negotiate :: "config \<Rightarrow> start_env \<Rightarrow> handle \<Rightarrow> jsval \<Rightarrow> world \<Rightarrow> error option \<times> world" where
  "negotiate cfg env pc key w =
     (let w1 = emit (CreateOffer pc) w in
      case create_offer env of
        None \<Rightarrow> (Some CreateOffer_rejected, w1)
      | Some sdp \<Rightarrow>
          (let w2 = emit (SetLocalDescription pc sdp) w1 in
           if \<not> set_local_ok env then (Some SetLocalDescription_rejected, w2)
           else
             (let w3 = emit (signaling_request cfg key sdp) w2 in
              case sdp_fetch env of
                None \<Rightarrow> (Some Fetch_rejected, w3)
              | Some r \<Rightarrow>
                  if \<not> ok (resp_status r)
                  then (Some (Error ''Failed to establish WebRTC connection''), w3)
                  else
                    (let w4 = emit (SetRemoteDescription pc (resp_body r)) w3 in
                     if accepts_answer env (resp_body r) then (None, w4)
                     else (Some SetRemoteDescription_rejected, w4)))))"

definition initEvent :: jsval where
  "initEvent =
     JObj [(''type'', JStr ''session.update''),
           (''session'', JObj [(''instructions'',
              JStr ''You are a helpful AI assistant responding in natural, engaging language.'')])]"

text \<open>Lines 97 to 105, after the browser has moved the channel to the state it is in by then.\<close>

definition initial_config :: "js \<Rightarrow> start_env \<Rightarrow> handle \<Rightarrow> world \<Rightarrow> world" where
  "initial_config j env dc w =
     (let w1 = w\<lparr>readyState := (readyState w)(dc := dc_ready env)\<rparr> in
      if readyState w1 dc = Open then emit (DC_send dc (JSON_stringify j initEvent)) w1
      else w1)"

text \<open>The body of the \<^verbatim>\<open>try\<close>: the error thrown, if any, and the world at that point.\<close>

definition startSession_try :: "config \<Rightarrow> js \<Rightarrow> start_env \<Rightarrow> world \<Rightarrow> error option \<times> world" where
  "startSession_try cfg j env w =
     (case provision cfg j env w of
        (Inl e, w1) \<Rightarrow> (Some e, w1)
      | (Inr key, w1) \<Rightarrow>
          (let (pc, dc, w2) = build_connection env w1 in
           case negotiate cfg env pc key w2 of
             (Some e, w3) \<Rightarrow> (Some e, w3)
           | (None, w3) \<Rightarrow> (None, initial_config j env dc w3)))"

text \<open>
  The whole function. The \<^verbatim>\<open>catch\<close> logs the error and calls the \<^verbatim>\<open>stopSession\<close> of the
  same render, so with the same captured \<^verbatim>\<open>dataChannel\<close> as \<^verbatim>\<open>startSession\<close> itself.
\<close>

definition startSession :: "config \<Rightarrow> js \<Rightarrow> start_env \<Rightarrow> handle option \<Rightarrow> world \<Rightarrow> world" where
  "startSession cfg j env captured w =
     (case startSession_try cfg j env w of
        (None, w') \<Rightarrow> w'
      | (Some e, w') \<Rightarrow> stopSession captured (emit (Console_error ''Session error:'' (Some e)) w'))"

subsection \<open>The event channel (lines 138 to 196)\<close>

definition channel_open :: "handle option \<Rightarrow> world \<Rightarrow> bool" where
  "channel_open captured w =
     (case captured of None \<Rightarrow> False | Some dc \<Rightarrow> readyState w dc = Open)"

text \<open>
  \<^verbatim>\<open>sendClientEvent(message)\<close>; \<open>now\<close> is \<^verbatim>\<open>new Date().toLocaleTimeString()\<close> and \<open>uuid\<close> is
  \<^verbatim>\<open>crypto.randomUUID()\<close>. The result is the error thrown to the caller, or the new world.
\<close>

definition sendClientEvent ::
  "js \<Rightarrow> handle option \<Rightarrow> string \<Rightarrow> string \<Rightarrow> jsval \<Rightarrow> world \<Rightarrow> error + world" where
  "sendClientEvent j captured now uuid message w =
     (case captured of
        None \<Rightarrow> Inr (emit (Console_error ''Failed to send message - data channel not ready'' None) w)
      | Some dc \<Rightarrow>
          if readyState w dc = Open then
            (case or_assign message ''event_id'' (JStr uuid) of
               Inl e \<Rightarrow> Inl e
             | Inr m1 \<Rightarrow>
                 (case or_assign m1 ''timestamp'' (JStr now) of
                    Inl e \<Rightarrow> Inl e
                  | Inr m2 \<Rightarrow>
                      Inr ((emit (DC_send dc (JSON_stringify j m2)) w)\<lparr>events := m2 # events w\<rparr>)))
          else Inr (emit (Console_error ''Failed to send message - data channel not ready'' None) w))"

definition text_event :: "jsval \<Rightarrow> jsval" where
  "text_event message =
     JObj [(''type'', JStr ''conversation.item.create''),
           (''item'', JObj [(''type'', JStr ''message''),
                            (''role'', JStr ''user''),
                            (''content'', JArr [JObj [(''type'', JStr ''input_text''),
                                                      (''text'', message)]] [])])]"

definition response_create :: jsval where
  "response_create = JObj [(''type'', JStr ''response.create'')]"

text \<open>\<^verbatim>\<open>sendTextMessage(message)\<close>: each of the two sends reads the clock and draws an identifier.\<close>

definition sendTextMessage ::
  "js \<Rightarrow> handle option \<Rightarrow> string \<times> string \<Rightarrow> string \<times> string \<Rightarrow> jsval \<Rightarrow> world \<Rightarrow> error + world" where
  "sendTextMessage j captured r1 r2 message w =
     (case sendClientEvent j captured (fst r1) (snd r1) (text_event message) w of
        Inl e \<Rightarrow> Inl e
      | Inr w1 \<Rightarrow> sendClientEvent j captured (fst r2) (snd r2) response_create w1)"

text \<open>The listeners the effect hook registers on the channel.\<close>

definition handleMessage :: "js \<Rightarrow> string \<Rightarrow> string \<Rightarrow> world \<Rightarrow> error + world" where
  "handleMessage j now data w =
     (case JSON_parse j data of
        None \<Rightarrow> Inl SyntaxError
      | Some event \<Rightarrow>
          (case or_assign event ''timestamp'' (JStr now) of
             Inl e \<Rightarrow> Inl e
           | Inr event' \<Rightarrow> Inr (w\<lparr>events := event' # events w\<rparr>)))"

definition handleOpen :: "world \<Rightarrow> world" where
  "handleOpen w = w\<lparr>isSessionActive := True, events := []\<rparr>"

definition handleClose :: "world \<Rightarrow> world" where
  "handleClose w = w\<lparr>isSessionActive := False\<rparr>"

subsection \<open>Classifying effects\<close>

fun is_fetch :: "effect \<Rightarrow> bool" where
  "is_fetch (Fetch u m h b) = True"
| "is_fetch _ = False"

fun is_send :: "effect \<Rightarrow> bool" where
  "is_send (DC_send dc p) = True"
| "is_send _ = False"

fun is_new_connection :: "effect \<Rightarrow> bool" where
  "is_new_connection (New_RTCPeerConnection pc) = True"
| "is_new_connection _ = False"

subsection \<open>Concrete inputs\<close>

text \<open>
  A configuration, a stand-in for the JSON built-ins (the serialisation of an object lists
  its field names), provisioning and signaling outcomes by HTTP status, and the world of a
  running session.
\<close>

definition demo_cfg :: config where
  "demo_cfg = \<lparr>WEBRTC_URL = ''https://rtc.example/realtime'',
                SESSIONS_URL = ''https://api.example/sessions'', API_KEY = ''key''\<rparr>"

definition field_names :: "jsval \<Rightarrow> string" where
  "field_names v = (case v of JObj fs \<Rightarrow> concat (map (\<lambda>p. fst p @ '';'') fs) | _ \<Rightarrow> [])"

definition demo_js :: js where
  "demo_js = \<lparr>JSON_stringify = field_names,
               JSON_parse = (\<lambda>s. if s = ''{}'' then Some (JObj []) else None)\<rparr>"

definition credential_body :: jsval where
  "credential_body = JObj [(''client_secret'', JObj [(''value'', JStr ''ek_123'')])]"

definition scenario :: "nat \<Rightarrow> jsval option \<Rightarrow> nat \<Rightarrow> ready_state \<Rightarrow> start_env" where
  "scenario s1 body s2 rs =
     \<lparr>session_fetch = Some \<lparr>resp_status = s1, resp_body = body\<rparr>, microphone = True,
      create_offer = Some ''v=0 offer'', set_local_ok = True,
      sdp_fetch = Some \<lparr>resp_status = s2, resp_body = ''v=0 answer''\<rparr>,
      accepts_answer = (\<lambda>sdp. True), dc_ready = rs\<rparr>"

definition active_world :: world where
  "active_world =
     \<lparr>isSessionActive = True, events = [], dataChannel = Some 3, peerConnection = Some 0,
      audioElement = Some 1, readyState = (\<lambda>h. if h = 3 then Open else Closed),
      senders = (\<lambda>h. if h = 0 then [Some 2] else []), next_handle = 4, effects = []\<rparr>"

section \<open>Auxiliary facts\<close>

lemma effects_emit: "effects (emit e w) = effects w @ [e]"
  by (simp add: emit_def)

lemma new_effects_append: "effects w' = effects w @ xs \<Longrightarrow> new_effects w w' = xs"
  by (simp add: new_effects_def)

lemma stop_tracks_eq:
  "stop_tracks ss w = w\<lparr>effects := effects w @ map Track_stop (map the (filter (\<lambda>s. s \<noteq> None) ss))\<rparr>"
  by (induction ss arbitrary: w) (auto simp: emit_def split: option.splits)

lemma stopSession_refs:
  "peerConnection (stopSession c w) = None"
  "audioElement (stopSession c w) = None"
  "isSessionActive (stopSession c w) = False"
  "dataChannel (stopSession c w) = (case c of None \<Rightarrow> dataChannel w | Some dc \<Rightarrow> None)"
  "events (stopSession c w) = events w"
  "next_handle (stopSession c w) = next_handle w"
  by (simp_all add: stopSession_def Let_def emit_def stop_tracks_eq split: option.splits)

lemma stopSession_effects:
  "effects (stopSession c w) = effects w
     @ (case c of None \<Rightarrow> [] | Some dc \<Rightarrow> [DC_close dc])
     @ (case peerConnection w of None \<Rightarrow> []
        | Some pc \<Rightarrow> map Track_stop (map the (filter (\<lambda>s. s \<noteq> None) (senders w pc))) @ [PC_close pc])
     @ (case audioElement w of None \<Rightarrow> [] | Some el \<Rightarrow> [Clear_srcObject el, Remove_child el])"
  by (simp add: stopSession_def Let_def emit_def stop_tracks_eq split: option.splits)

lemma filter_track_stop:
  "filter is_fetch (map Track_stop ts) = []"
  "filter is_send (map Track_stop ts) = []"
  "filter is_new_connection (map Track_stop ts) = []"
  by (induction ts) simp_all

lemma stopSession_quiet:
  "\<exists>xs. effects (stopSession c w) = effects w @ xs \<and> filter is_fetch xs = []
      \<and> filter is_send xs = [] \<and> filter is_new_connection xs = []"
  by (simp add: stopSession_effects filter_track_stop split: option.splits)

lemma or_assign_obj:
  "or_assign (JObj fs) k d =
     Inr (JObj (AList.update k (if truthy (lookup fs k) then lookup fs k else d) fs))"
  by (simp add: or_assign_def)

lemma or_assign_arr:
  "or_assign (JArr xs ps) k d =
     Inr (JArr xs (AList.update k (if truthy (lookup ps k) then lookup ps k else d) ps))"
  by (simp add: or_assign_def)

lemma lookup_update: "lookup (AList.update k v fs) k' = (if k' = k then v else lookup fs k')"
  by (simp add: lookup_def update_conv')

lemma or_assign_object: "is_object v \<Longrightarrow> \<exists>v'. or_assign v k d = Inr v' \<and> is_object v'"
  by (cases v) (simp_all add: is_object_def or_assign_obj or_assign_arr)

lemma provision_world: "snd (provision cfg j env w) = emit (provisioning_request cfg j) w"
  by (simp add: provision_def Let_def split: option.splits)

lemma provision_not_ok:
  "session_fetch env = Some r \<Longrightarrow> \<not> ok (resp_status r) \<Longrightarrow>
   provision cfg j env w = (Inl (Error ''Failed to create session''), emit (provisioning_request cfg j) w)"
  by (simp add: provision_def Let_def)

lemma provision_ok:
  "session_fetch env = Some r \<Longrightarrow> ok (resp_status r) \<Longrightarrow> resp_body r = Some d \<Longrightarrow>
   provision cfg j env w = (client_secret_value d, emit (provisioning_request cfg j) w)"
  by (simp add: provision_def Let_def)

lemma build_connection_fst: "fst (build_connection env w) = next_handle w"
  by (simp add: build_connection_def Let_def alloc_def split_def)

lemma build_connection_effects:
  "effects (snd (snd (build_connection env w))) = effects w @
     [New_RTCPeerConnection (next_handle w), Create_audio (Suc (next_handle w)),
      Append_child (Suc (next_handle w)), Set_ontrack (next_handle w), GetUserMedia,
      (if microphone env then AddTrack (next_handle w) (Suc (Suc (next_handle w)))
       else Console_error ''Error accessing microphone:'' None),
      CreateDataChannel (next_handle w) ''azure-oai-events'' (fst (snd (build_connection env w)))]"
  by (simp add: build_connection_def Let_def alloc_def emit_def split_def)

lemma build_connection_state:
  "events (snd (snd (build_connection env w))) = events w"
  "isSessionActive (snd (snd (build_connection env w))) = isSessionActive w"
  "dataChannel (snd (snd (build_connection env w))) = Some (fst (snd (build_connection env w)))"
  "peerConnection (snd (snd (build_connection env w))) = Some (next_handle w)"
  "audioElement (snd (snd (build_connection env w))) = Some (Suc (next_handle w))"
  by (simp_all add: build_connection_def Let_def alloc_def emit_def split_def)

lemma negotiate_world:
  "snd (negotiate cfg env pc key w) = w\<lparr>effects := effects w @ new_effects w (snd (negotiate cfg env pc key w))\<rparr>"
  by (simp add: negotiate_def Let_def emit_def new_effects_def split: option.splits)

lemma negotiate_quiet:
  "filter is_send (new_effects w (snd (negotiate cfg env pc key w))) = []"
  "filter is_new_connection (new_effects w (snd (negotiate cfg env pc key w))) = []"
  by (simp_all add: negotiate_def Let_def emit_def new_effects_def signaling_request_def split: option.splits)

lemma negotiate_fetch:
  "filter is_fetch (new_effects w (snd (negotiate cfg env pc key w))) =
     (case create_offer env of None \<Rightarrow> []
      | Some sdp \<Rightarrow> if set_local_ok env then [signaling_request cfg key sdp] else [])"
  by (simp add: negotiate_def Let_def emit_def new_effects_def signaling_request_def split: option.splits)

lemma initial_config_world:
  "initial_config j env dc w =
     w\<lparr>readyState := (readyState w)(dc := dc_ready env),
       effects := effects w @ (if dc_ready env = Open then [DC_send dc (JSON_stringify j initEvent)] else [])\<rparr>"
  by (simp add: initial_config_def Let_def emit_def)

lemma try_Inl:
  "fst (provision cfg j env w) = Inl e \<Longrightarrow>
   startSession_try cfg j env w = (Some e, emit (provisioning_request cfg j) w)"
  using provision_world [of cfg j env w]
  by (cases "provision cfg j env w") (simp add: startSession_try_def)

lemma try_Inr:
  "fst (provision cfg j env w) = Inr key \<Longrightarrow>
   startSession_try cfg j env w =
     (let b = build_connection env (emit (provisioning_request cfg j) w);
          n = negotiate cfg env (fst b) key (snd (snd b))
      in (fst n, if fst n = None then initial_config j env (fst (snd b)) (snd n) else snd n))"
  using provision_world [of cfg j env w]
  by (cases "provision cfg j env w")
     (auto simp: startSession_try_def Let_def split_def prod_eq_iff split: option.splits)

lemma try_shape:
  "\<exists>xs. effects (snd (startSession_try cfg j env w)) = effects w @ xs
     \<and> filter is_fetch xs = provisioning_request cfg j #
         (case fst (provision cfg j env w) of Inl e \<Rightarrow> []
          | Inr key \<Rightarrow> (case create_offer env of None \<Rightarrow> []
              | Some sdp \<Rightarrow> if set_local_ok env then [signaling_request cfg key sdp] else []))
     \<and> filter is_new_connection xs =
         (case fst (provision cfg j env w) of Inl e \<Rightarrow> []
          | Inr key \<Rightarrow> [New_RTCPeerConnection (next_handle w)])
     \<and> filter is_send xs =
         (if fst (startSession_try cfg j env w) = None \<and> dc_ready env = Open
          then [DC_send (fst (snd (build_connection env (emit (provisioning_request cfg j) w))))
                  (JSON_stringify j initEvent)]
          else [])"
proof (cases "fst (provision cfg j env w)")
  case (Inl e)
  show ?thesis
    by (intro exI[of _ "[provisioning_request cfg j]"])
       (simp add: try_Inl [OF Inl] Inl effects_emit provisioning_request_def)
next
  case (Inr key)
  define w1 where "w1 = emit (provisioning_request cfg j) w"
  define b where "b = build_connection env w1"
  define n where "n = negotiate cfg env (fst b) key (snd (snd b))"
  define N where "N = new_effects (snd (snd b)) (snd n)"
  define C where "C = (if fst n = None \<and> dc_ready env = Open
     then [DC_send (fst (snd b)) (JSON_stringify j initEvent)] else [])"
  define B where "B = [New_RTCPeerConnection (next_handle w), Create_audio (Suc (next_handle w)),
      Append_child (Suc (next_handle w)), Set_ontrack (next_handle w), GetUserMedia,
      (if microphone env then AddTrack (next_handle w) (Suc (Suc (next_handle w)))
       else Console_error ''Error accessing microphone:'' None),
      CreateDataChannel (next_handle w) ''azure-oai-events'' (fst (snd b))]"
  have t: "startSession_try cfg j env w =
      (fst n, if fst n = None then initial_config j env (fst (snd b)) (snd n) else snd n)"
    by (simp add: try_Inr [OF Inr] n_def b_def w1_def Let_def)
  have e1: "effects w1 = effects w @ [provisioning_request cfg j]" "next_handle w1 = next_handle w"
    by (simp_all add: w1_def emit_def)
  have e2: "effects (snd (snd b)) = effects w1 @ B"
    unfolding b_def B_def using build_connection_effects [of env w1] by (simp add: e1)
  have e3: "effects (snd n) = effects (snd (snd b)) @ N"
    unfolding n_def N_def
    using negotiate_world [of cfg env "fst b" key "snd (snd b)"]
    by (metis world.select_convs(9) world.surjective world.update_convs(9))
  have e4: "effects (snd (startSession_try cfg j env w)) = effects (snd n) @ C"
    by (simp add: t C_def initial_config_world)
  have fN: "filter is_send N = []" "filter is_new_connection N = []"
    "filter is_fetch N = (case create_offer env of None \<Rightarrow> []
          | Some sdp \<Rightarrow> if set_local_ok env then [signaling_request cfg key sdp] else [])"
    unfolding N_def n_def by (simp_all add: negotiate_quiet negotiate_fetch)
  have fB: "filter is_send B = []" "filter is_fetch B = []"
    "filter is_new_connection B = [New_RTCPeerConnection (next_handle w)]"
    by (simp_all add: B_def)
  have fC: "filter is_fetch C = []" "filter is_new_connection C = []" "filter is_send C = C"
    by (simp_all add: C_def)
  have fst_t: "fst (startSession_try cfg j env w) = fst n" by (simp add: t)
  show ?thesis
    apply (intro exI[of _ "provisioning_request cfg j # B @ N @ C"])
    apply (simp add: e4 e3 e2 e1 fN fB fC Inr fst_t)
    apply (simp add: provisioning_request_def C_def b_def w1_def)
    done
qed

lemma try_unchanged:
  "events (snd (startSession_try cfg j env w)) = events w"
  "isSessionActive (snd (startSession_try cfg j env w)) = isSessionActive w"
proof -
  have "events (snd (startSession_try cfg j env w)) = events w
      \<and> isSessionActive (snd (startSession_try cfg j env w)) = isSessionActive w"
  proof (cases "fst (provision cfg j env w)")
    case (Inl e)
    then show ?thesis by (simp add: try_Inl [OF Inl] emit_def)
  next
    case (Inr key)
    define b where "b = build_connection env (emit (provisioning_request cfg j) w)"
    define n where "n = negotiate cfg env (fst b) key (snd (snd b))"
    have n: "snd n = (snd (snd b))\<lparr>effects := effects (snd (snd b)) @ new_effects (snd (snd b)) (snd n)\<rparr>"
      unfolding n_def by (rule negotiate_world)
    have "events (snd n) = events (snd (snd b))" "isSessionActive (snd n) = isSessionActive (snd (snd b))"
      by (subst n, simp)+
    moreover have "events (snd (snd b)) = events w" "isSessionActive (snd (snd b)) = isSessionActive w"
      by (simp_all add: b_def build_connection_state emit_def)
    ultimately show ?thesis
      by (simp add: try_Inr [OF Inr] Let_def b_def [symmetric] n_def [symmetric] initial_config_world)
  qed
  then show "events (snd (startSession_try cfg j env w)) = events w"
    "isSessionActive (snd (startSession_try cfg j env w)) = isSessionActive w" by simp_all
qed

lemmas run_defs = startSession_def startSession_try_def provision_def build_connection_def
  negotiate_def initial_config_def stopSession_def Let_def emit_def alloc_def split_def
  provisioning_request_def signaling_request_def ok_def client_secret_value_def opt_chain_def
  lookup_def DEPLOYMENT_def VOICE_def initEvent_def
  demo_cfg_def demo_js_def field_names_def credential_body_def scenario_def initial_world_def
  active_world_def

lemma start_shape:
  "\<exists>xs. effects (startSession cfg j env captured w) = effects w @ xs
     \<and> filter is_fetch xs = provisioning_request cfg j #
         (case fst (provision cfg j env w) of Inl e \<Rightarrow> []
          | Inr key \<Rightarrow> (case create_offer env of None \<Rightarrow> []
              | Some sdp \<Rightarrow> if set_local_ok env then [signaling_request cfg key sdp] else []))
     \<and> filter is_new_connection xs =
         (case fst (provision cfg j env w) of Inl e \<Rightarrow> []
          | Inr key \<Rightarrow> [New_RTCPeerConnection (next_handle w)])
     \<and> filter is_send xs =
         (if fst (startSession_try cfg j env w) = None \<and> dc_ready env = Open
          then [DC_send (fst (snd (build_connection env (emit (provisioning_request cfg j) w))))
                  (JSON_stringify j initEvent)]
          else [])"
proof -
  obtain xs where xs: "effects (snd (startSession_try cfg j env w)) = effects w @ xs"
    "filter is_fetch xs = provisioning_request cfg j #
         (case fst (provision cfg j env w) of Inl e \<Rightarrow> []
          | Inr key \<Rightarrow> (case create_offer env of None \<Rightarrow> []
              | Some sdp \<Rightarrow> if set_local_ok env then [signaling_request cfg key sdp] else []))"
    "filter is_new_connection xs =
         (case fst (provision cfg j env w) of Inl e \<Rightarrow> []
          | Inr key \<Rightarrow> [New_RTCPeerConnection (next_handle w)])"
    "filter is_send xs =
         (if fst (startSession_try cfg j env w) = None \<and> dc_ready env = Open
          then [DC_send (fst (snd (build_connection env (emit (provisioning_request cfg j) w))))
                  (JSON_stringify j initEvent)]
          else [])"
    using try_shape [of cfg j env w] by blast
  show ?thesis
  proof (cases "fst (startSession_try cfg j env w)")
    case None
    then have "startSession cfg j env captured w = snd (startSession_try cfg j env w)"
      by (cases "startSession_try cfg j env w") (simp add: startSession_def)
    with xs show ?thesis by auto
  next
    case (Some e)
    define w' where "w' = emit (Console_error ''Session error:'' (Some e)) (snd (startSession_try cfg j env w))"
    from Some have s: "startSession cfg j env captured w = stopSession captured w'"
      by (cases "startSession_try cfg j env w") (simp add: startSession_def w'_def)
    obtain ys where ys: "effects (stopSession captured w') = effects w' @ ys"
      "filter is_fetch ys = []" "filter is_send ys = []" "filter is_new_connection ys = []"
      using stopSession_quiet [of captured w'] by blast
    have "effects w' = effects w @ xs @ [Console_error ''Session error:'' (Some e)]"
      by (simp add: w'_def emit_def xs(1))
    with ys have "effects (startSession cfg j env captured w)
        = effects w @ (xs @ Console_error ''Session error:'' (Some e) # ys)"
      by (simp add: s)
    moreover have "filter is_fetch (xs @ Console_error ''Session error:'' (Some e) # ys) = filter is_fetch xs"
      "filter is_send (xs @ Console_error ''Session error:'' (Some e) # ys) = filter is_send xs"
      "filter is_new_connection (xs @ Console_error ''Session error:'' (Some e) # ys) = filter is_new_connection xs"
      using ys by simp_all
    ultimately show ?thesis using xs(2-4) by (intro exI[of _ "xs @ Console_error ''Session error:'' (Some e) # ys"]) simp
  qed
qed

lemma start_unchanged: "events (startSession cfg j env captured w) = events w"
  by (cases "startSession_try cfg j env w"; cases "fst (startSession_try cfg j env w)")
     (use try_unchanged(1) [of cfg j env w] in
       \<open>auto simp: startSession_def stopSession_refs emit_def\<close>)

lemma start_not_ok:
  "session_fetch env = Some r \<Longrightarrow> \<not> ok (resp_status r) \<Longrightarrow>
   startSession cfg j env captured w =
     stopSession captured (emit (Console_error ''Session error:'' (Some (Error ''Failed to create session'')))
       (emit (provisioning_request cfg j) w))"
  using try_Inl [of cfg j env w "Error ''Failed to create session''"]
  by (simp add: provision_not_ok startSession_def)

lemma try_channel:
  assumes "fst (startSession_try cfg j env w) = None"
  shows "dataChannel (snd (startSession_try cfg j env w)) =
           Some (fst (snd (build_connection env (emit (provisioning_request cfg j) w))))"
proof (cases "fst (provision cfg j env w)")
  case (Inl e)
  with assms show ?thesis by (simp add: try_Inl [OF Inl])
next
  case (Inr key)
  define b where "b = build_connection env (emit (provisioning_request cfg j) w)"
  define n where "n = negotiate cfg env (fst b) key (snd (snd b))"
  have n: "snd n = (snd (snd b))\<lparr>effects := effects (snd (snd b)) @ new_effects (snd (snd b)) (snd n)\<rparr>"
    unfolding n_def by (rule negotiate_world)
  have "dataChannel (snd n) = dataChannel (snd (snd b))"
    by (subst n) simp
  moreover have "dataChannel (snd (snd b)) = Some (fst (snd b))"
    by (simp add: b_def build_connection_state)
  ultimately show ?thesis using assms
    by (simp add: try_Inr [OF Inr] Let_def b_def [symmetric] n_def [symmetric]
          initial_config_world)
qed

lemma start_success:
  "fst (startSession_try cfg j env w) = None \<Longrightarrow>
   startSession cfg j env captured w = snd (startSession_try cfg j env w)"
  by (cases "startSession_try cfg j env w") (simp add: startSession_def)

lemma start_new_effects:
  "filter is_fetch (new_effects w (startSession cfg j env captured w)) =
     provisioning_request cfg j #
       (case fst (provision cfg j env w) of Inl e \<Rightarrow> []
        | Inr key \<Rightarrow> (case create_offer env of None \<Rightarrow> []
            | Some sdp \<Rightarrow> if set_local_ok env then [signaling_request cfg key sdp] else []))"
  "filter is_new_connection (new_effects w (startSession cfg j env captured w)) =
     (case fst (provision cfg j env w) of Inl e \<Rightarrow> []
      | Inr key \<Rightarrow> [New_RTCPeerConnection (next_handle w)])"
  "filter is_send (new_effects w (startSession cfg j env captured w)) =
     (if fst (startSession_try cfg j env w) = None \<and> dc_ready env = Open
      then [DC_send (fst (snd (build_connection env (emit (provisioning_request cfg j) w))))
              (JSON_stringify j initEvent)]
      else [])"
  using start_shape [of cfg j env captured w] new_effects_append by metis+

lemma idle_teardown:
  "\<not> isSessionActive w \<Longrightarrow> peerConnection w = None \<Longrightarrow> audioElement w = None \<Longrightarrow>
   stopSession None w = w"
  by (simp add: stopSession_def)

lemma build_connection_channel:
  "fst (snd (build_connection env w)) = next_handle w + (if microphone env then 3 else 2)"
  by (simp add: build_connection_def Let_def alloc_def emit_def split_def)

lemma start_channel:
  "fst (startSession_try cfg j env w) = None \<Longrightarrow>
   dataChannel (startSession cfg j env captured w) =
     Some (next_handle w + (if microphone env then 3 else 2))"
  by (simp add: start_success try_channel build_connection_channel emit_def)

lemma start_sends:
  "filter is_send (new_effects w (startSession cfg j env captured w)) =
     (if fst (startSession_try cfg j env w) = None \<and> dc_ready env = Open
      then [DC_send (next_handle w + (if microphone env then 3 else 2)) (JSON_stringify j initEvent)]
      else [])"
  by (simp add: start_new_effects(3) build_connection_channel emit_def)

lemma try_open:
  "fst (startSession_try demo_cfg demo_js (scenario 200 (Some credential_body) 200 Open) initial_world) = None"
  by (simp add: run_defs)

lemma provision_not_json:
  "session_fetch env = Some r \<Longrightarrow> ok (resp_status r) \<Longrightarrow> resp_body r = None \<Longrightarrow>
   provision cfg j env w = (Inl SyntaxError, emit (provisioning_request cfg j) w)"
  by (simp add: provision_def Let_def)

lemma client_secret_value_null:
  "client_secret_value JNull = Inl TypeError"
  "client_secret_value JUndefined = Inl TypeError"
  by (simp_all add: client_secret_value_def)

lemma opt_chain_total: "\<exists>v. opt_chain cs k = Inr v"
  by (cases cs) (simp_all add: opt_chain_def)

lemma client_secret_value_total:
  "d \<noteq> JNull \<Longrightarrow> d \<noteq> JUndefined \<Longrightarrow> \<exists>key. client_secret_value d = Inr key"
  by (cases d) (simp_all add: client_secret_value_def opt_chain_total)

lemma client_secret_value_missing:
  "lookup fs ''client_secret'' = JUndefined \<or> lookup fs ''client_secret'' = JNull
     \<or> (lookup fs ''client_secret'' = JObj gs \<and> lookup gs ''value'' = JUndefined) \<Longrightarrow>
   client_secret_value (JObj fs) = Inr JUndefined"
  by (auto simp: client_secret_value_def opt_chain_def)

text \<open>
  What the \<^verbatim>\<open>catch\<close> leaves behind after any error: no connection, no playback element, an
  inactive session; the channel handle is cleared only when the render had one.
\<close>

lemma start_failure_teardown:
  assumes "fst (startSession_try cfg j env w) = Some e"
  shows "peerConnection (startSession cfg j env captured w) = None
     \<and> audioElement (startSession cfg j env captured w) = None
     \<and> \<not> isSessionActive (startSession cfg j env captured w)
     \<and> dataChannel (startSession cfg j env captured w) =
         (case captured of
            None \<Rightarrow> dataChannel (snd (startSession_try cfg j env w))
          | Some dc \<Rightarrow> None)"
  using assms
  by (cases "startSession_try cfg j env w")
     (simp add: startSession_def stopSession_refs emit_def split: option.splits)

text \<open>
  \<^verbatim>\<open>stopSession\<close> called from a render that holds the current channel handle, as the stop
  control of the interface is, leaves no handle and an inactive session.
\<close>

lemma stopSession_current_handle:
  assumes "captured = dataChannel w"
  shows "peerConnection (stopSession captured w) = None
     \<and> dataChannel (stopSession captured w) = None
     \<and> audioElement (stopSession captured w) = None
     \<and> \<not> isSessionActive (stopSession captured w)"
  using assms by (simp add: stopSession_refs split: option.splits)

lemma stopSession_current_handle_example:
  "peerConnection (stopSession (Some 3) active_world) = None
     \<and> dataChannel (stopSession (Some 3) active_world) = None
     \<and> audioElement (stopSession (Some 3) active_world) = None
     \<and> \<not> isSessionActive (stopSession (Some 3) active_world)"
  using stopSession_current_handle [of "Some 3" active_world] by (simp add: active_world_def)

section \<open>Properties of the session lifecycle and the event channel\<close>

text \<open>
  C1, amended. A provisioning response with a status outside 200 to 299 makes
  \<^verbatim>\<open>startSession\<close> throw \<^verbatim>\<open>Error('Failed to create session')\<close> before any connection is
  constructed. A response with a success status also fails before any connection when its
  body is not JSON (a SyntaxError) or is \<^verbatim>\<open>null\<close> (a TypeError). For every other body of a
  success response the provisioning step does not fail, whether or not the body has
  \<^verbatim>\<open>client_secret.value\<close>: the credential is the value of
  \<^verbatim>\<open>sessionData.client_secret?.value\<close>, which is undefined when \<^verbatim>\<open>client_secret\<close> is missing or
  null or has no \<^verbatim>\<open>value\<close>; one connection is constructed, and the signaling request, when
  the run reaches it, carries that value after \<^verbatim>\<open>Bearer\<close>.
\<close>

theorem provisioning_fails_on_status_not_on_missing_credential:
  "(session_fetch env = Some r \<and> \<not> ok (resp_status r) \<longrightarrow>
      fst (startSession_try cfg j env w) = Some (Error ''Failed to create session'')
      \<and> filter is_new_connection (new_effects w (startSession cfg j env captured w)) = [])
   \<and> (session_fetch env = Some r \<and> ok (resp_status r) \<and> resp_body r = None \<longrightarrow>
      fst (startSession_try cfg j env w) = Some SyntaxError
      \<and> filter is_new_connection (new_effects w (startSession cfg j env captured w)) = [])
   \<and> client_secret_value JNull = Inl TypeError
   \<and> (session_fetch env = Some r \<and> ok (resp_status r) \<and> resp_body r = Some d
        \<and> client_secret_value d = Inl e \<longrightarrow>
      fst (startSession_try cfg j env w) = Some e
      \<and> filter is_new_connection (new_effects w (startSession cfg j env captured w)) = [])
   \<and> (d \<noteq> JNull \<and> d \<noteq> JUndefined \<longrightarrow> (\<exists>v. client_secret_value d = Inr v))
   \<and> (lookup fs ''client_secret'' = JUndefined \<or> lookup fs ''client_secret'' = JNull
        \<or> (lookup fs ''client_secret'' = JObj gs \<and> lookup gs ''value'' = JUndefined) \<longrightarrow>
      client_secret_value (JObj fs) = Inr JUndefined)
   \<and> (session_fetch env = Some r \<and> ok (resp_status r) \<and> resp_body r = Some d
        \<and> client_secret_value d = Inr key \<longrightarrow>
      fst (provision cfg j env w) = Inr key
      \<and> filter is_new_connection (new_effects w (startSession cfg j env captured w)) =
          [New_RTCPeerConnection (next_handle w)]
      \<and> filter is_fetch (new_effects w (startSession cfg j env captured w)) =
          provisioning_request cfg j #
            (case create_offer env of
               None \<Rightarrow> []
             | Some sdp \<Rightarrow> if set_local_ok env then [signaling_request cfg key sdp] else []))"
proof -
  have fails: "fst (startSession_try cfg j env w) = Some x
      \<and> filter is_new_connection (new_effects w (startSession cfg j env captured w)) = []"
    if "fst (provision cfg j env w) = Inl x" for x
    using that by (simp add: try_Inl [OF that] start_new_effects(2))
  have 1: "session_fetch env = Some r \<and> \<not> ok (resp_status r) \<longrightarrow>
      fst (startSession_try cfg j env w) = Some (Error ''Failed to create session'')
      \<and> filter is_new_connection (new_effects w (startSession cfg j env captured w)) = []"
    (is "?H \<longrightarrow> ?C")
  proof
    assume ?H
    then show ?C by (intro fails) (simp add: provision_not_ok)
  qed
  have 2: "session_fetch env = Some r \<and> ok (resp_status r) \<and> resp_body r = None \<longrightarrow>
      fst (startSession_try cfg j env w) = Some SyntaxError
      \<and> filter is_new_connection (new_effects w (startSession cfg j env captured w)) = []"
    (is "?H \<longrightarrow> ?C")
  proof
    assume ?H
    then show ?C by (intro fails) (simp add: provision_not_json)
  qed
  have 3: "session_fetch env = Some r \<and> ok (resp_status r) \<and> resp_body r = Some d
        \<and> client_secret_value d = Inl e \<longrightarrow>
      fst (startSession_try cfg j env w) = Some e
      \<and> filter is_new_connection (new_effects w (startSession cfg j env captured w)) = []"
    (is "?H \<longrightarrow> ?C")
  proof
    assume ?H
    then show ?C by (intro fails) (simp add: provision_ok)
  qed
  have 4: "d \<noteq> JNull \<and> d \<noteq> JUndefined \<longrightarrow> (\<exists>v. client_secret_value d = Inr v)"
    by (simp add: client_secret_value_total)
  have 5: "lookup fs ''client_secret'' = JUndefined \<or> lookup fs ''client_secret'' = JNull
        \<or> (lookup fs ''client_secret'' = JObj gs \<and> lookup gs ''value'' = JUndefined) \<longrightarrow>
      client_secret_value (JObj fs) = Inr JUndefined"
    (is "?H \<longrightarrow> ?C")
  proof
    assume ?H
    then show ?C by (rule client_secret_value_missing)
  qed
  have 6: "session_fetch env = Some r \<and> ok (resp_status r) \<and> resp_body r = Some d
        \<and> client_secret_value d = Inr key \<longrightarrow>
      fst (provision cfg j env w) = Inr key
      \<and> filter is_new_connection (new_effects w (startSession cfg j env captured w)) =
          [New_RTCPeerConnection (next_handle w)]
      \<and> filter is_fetch (new_effects w (startSession cfg j env captured w)) =
          provisioning_request cfg j #
            (case create_offer env of
               None \<Rightarrow> []
             | Some sdp \<Rightarrow> if set_local_ok env then [signaling_request cfg key sdp] else [])"
    (is "?H \<longrightarrow> ?C")
  proof
    assume ?H
    then have p: "fst (provision cfg j env w) = Inr key"
      by (simp add: provision_ok)
    then show ?C by (simp add: start_new_effects(1,2))
  qed
  from 1 2 client_secret_value_null(1) 3 4 5 6 show ?thesis by (intro conjI)
qed

theorem provisioning_fails_on_status_not_on_missing_credential_witness:
  "session_fetch (scenario 500 None 200 Connecting) = Some \<lparr>resp_status = 500, resp_body = None\<rparr>
   \<and> \<not> ok (resp_status \<lparr>resp_status = 500, resp_body = None :: jsval option\<rparr>)
   \<and> fst (startSession_try demo_cfg demo_js (scenario 500 None 200 Connecting) initial_world) =
       Some (Error ''Failed to create session'')
   \<and> filter is_new_connection (new_effects initial_world
        (startSession demo_cfg demo_js (scenario 500 None 200 Connecting) None initial_world)) = []
   \<and> session_fetch (scenario 200 None 200 Connecting) = Some \<lparr>resp_status = 200, resp_body = None\<rparr>
   \<and> ok (resp_status \<lparr>resp_status = 200, resp_body = None :: jsval option\<rparr>)
   \<and> fst (startSession_try demo_cfg demo_js (scenario 200 None 200 Connecting) initial_world) =
       Some SyntaxError
   \<and> filter is_new_connection (new_effects initial_world
        (startSession demo_cfg demo_js (scenario 200 None 200 Connecting) None initial_world)) = []
   \<and> session_fetch (scenario 200 (Some JNull) 200 Connecting) =
       Some \<lparr>resp_status = 200, resp_body = Some JNull\<rparr>
   \<and> client_secret_value JNull = Inl TypeError
   \<and> fst (startSession_try demo_cfg demo_js (scenario 200 (Some JNull) 200 Connecting) initial_world) =
       Some TypeError
   \<and> filter is_new_connection (new_effects initial_world
        (startSession demo_cfg demo_js (scenario 200 (Some JNull) 200 Connecting) None initial_world)) = []
   \<and> JObj [] \<noteq> JNull \<and> JObj [] \<noteq> JUndefined
   \<and> (\<exists>v. client_secret_value (JObj []) = Inr v)
   \<and> lookup [] ''client_secret'' = JUndefined
   \<and> client_secret_value (JObj []) = Inr JUndefined
   \<and> session_fetch (scenario 200 (Some (JObj [])) 200 Connecting) =
       Some \<lparr>resp_status = 200, resp_body = Some (JObj [])\<rparr>
   \<and> fst (provision demo_cfg demo_js (scenario 200 (Some (JObj [])) 200 Connecting) initial_world) =
       Inr JUndefined
   \<and> filter is_new_connection (new_effects initial_world
        (startSession demo_cfg demo_js (scenario 200 (Some (JObj [])) 200 Connecting) None initial_world)) =
       [New_RTCPeerConnection 0]
   \<and> filter is_fetch (new_effects initial_world
        (startSession demo_cfg demo_js (scenario 200 (Some (JObj [])) 200 Connecting) None initial_world)) =
       [provisioning_request demo_cfg demo_js, signaling_request demo_cfg JUndefined ''v=0 offer'']"
proof -
  let ?bad = "scenario 500 None 200 Connecting"
  let ?nojson = "scenario 200 None 200 Connecting"
  let ?null = "scenario 200 (Some JNull) 200 Connecting"
  let ?nocred = "scenario 200 (Some (JObj [])) 200 Connecting"
  note a = provisioning_fails_on_status_not_on_missing_credential
    [where cfg = demo_cfg and j = demo_js and w = initial_world and captured = None]
  have h1: "session_fetch ?bad = Some \<lparr>resp_status = 500, resp_body = None\<rparr>
      \<and> \<not> ok (resp_status \<lparr>resp_status = 500, resp_body = None :: jsval option\<rparr>)"
    by (simp add: scenario_def ok_def)
  have h2: "session_fetch ?nojson = Some \<lparr>resp_status = 200, resp_body = None\<rparr>
      \<and> ok (resp_status \<lparr>resp_status = 200, resp_body = None :: jsval option\<rparr>)
      \<and> resp_body \<lparr>resp_status = 200, resp_body = None :: jsval option\<rparr> = None"
    by (simp add: scenario_def ok_def)
  note n = a [where d = JNull, THEN conjunct2, THEN conjunct2, THEN conjunct1]
  have h3: "session_fetch ?null = Some \<lparr>resp_status = 200, resp_body = Some JNull\<rparr>
      \<and> ok (resp_status \<lparr>resp_status = 200, resp_body = Some JNull\<rparr>)
      \<and> resp_body \<lparr>resp_status = 200, resp_body = Some JNull\<rparr> = Some JNull
      \<and> client_secret_value JNull = Inl TypeError"
    using n by (simp add: scenario_def ok_def)
  have h4: "JObj [] \<noteq> JNull \<and> JObj [] \<noteq> JUndefined"
    by simp
  have h5: "lookup [] ''client_secret'' = JUndefined"
    by (simp add: lookup_def)
  note m = a [where fs = "[]", THEN conjunct2, THEN conjunct2, THEN conjunct2, THEN conjunct2,
      THEN conjunct2, THEN conjunct1, rule_format, OF disjI1, OF h5]
  have h6: "session_fetch ?nocred = Some \<lparr>resp_status = 200, resp_body = Some (JObj [])\<rparr>
      \<and> ok (resp_status \<lparr>resp_status = 200, resp_body = Some (JObj [])\<rparr>)
      \<and> resp_body \<lparr>resp_status = 200, resp_body = Some (JObj [])\<rparr> = Some (JObj [])
      \<and> client_secret_value (JObj []) = Inr JUndefined"
    using m by (simp add: scenario_def ok_def)
  have e: "next_handle initial_world = 0" "create_offer ?nocred = Some ''v=0 offer''"
    "set_local_ok ?nocred"
    by (simp_all add: initial_world_def scenario_def)
  from a [where env = ?bad, THEN conjunct1, rule_format, OF h1]
  have 1: "fst (startSession_try demo_cfg demo_js ?bad initial_world) =
       Some (Error ''Failed to create session'')
     \<and> filter is_new_connection (new_effects initial_world
        (startSession demo_cfg demo_js ?bad None initial_world)) = []" .
  from a [where env = ?nojson, THEN conjunct2, THEN conjunct1, rule_format, OF h2]
  have 2: "fst (startSession_try demo_cfg demo_js ?nojson initial_world) = Some SyntaxError
     \<and> filter is_new_connection (new_effects initial_world
        (startSession demo_cfg demo_js ?nojson None initial_world)) = []" .
  from a [where env = ?null, THEN conjunct2, THEN conjunct2, THEN conjunct2, THEN conjunct1,
      rule_format, OF h3]
  have 3: "fst (startSession_try demo_cfg demo_js ?null initial_world) = Some TypeError
     \<and> filter is_new_connection (new_effects initial_world
        (startSession demo_cfg demo_js ?null None initial_world)) = []" .
  from a [where d = "JObj []", THEN conjunct2, THEN conjunct2, THEN conjunct2, THEN conjunct2,
      THEN conjunct1, rule_format, OF h4]
  have 4: "\<exists>v. client_secret_value (JObj []) = Inr v" .
  from a [where env = ?nocred, THEN conjunct2, THEN conjunct2, THEN conjunct2, THEN conjunct2,
      THEN conjunct2, THEN conjunct2, rule_format, OF h6]
  have 5: "fst (provision demo_cfg demo_js ?nocred initial_world) = Inr JUndefined
     \<and> filter is_new_connection (new_effects initial_world
        (startSession demo_cfg demo_js ?nocred None initial_world)) = [New_RTCPeerConnection 0]
     \<and> filter is_fetch (new_effects initial_world
        (startSession demo_cfg demo_js ?nocred None initial_world)) =
       [provisioning_request demo_cfg demo_js, signaling_request demo_cfg JUndefined ''v=0 offer'']"
    by (simp add: e)
  from h1 h2 h3 h4 h5 h6 1 2 3 4 5 show ?thesis by (elim conjE) (intro conjI)
qed

theorem missing_credential_still_connects:
  "ok 200
   \<and> client_secret_value (JObj []) = Inr JUndefined
   \<and> fst (startSession_try demo_cfg demo_js (scenario 200 (Some (JObj [])) 200 Connecting) initial_world)
       = None
   \<and> effects (startSession demo_cfg demo_js (scenario 200 (Some (JObj [])) 200 Connecting) None
        initial_world) =
       [Fetch ''https://api.example/sessions'' ''POST''
          [(''api-key'', Plain ''key''), (''Content-Type'', Plain ''application/json'')]
          ''model;voice;'',
        New_RTCPeerConnection 0, Create_audio 1, Append_child 1, Set_ontrack 0, GetUserMedia,
        AddTrack 0 2, CreateDataChannel 0 ''azure-oai-events'' 3, CreateOffer 0,
        SetLocalDescription 0 ''v=0 offer'',
        Fetch ''https://rtc.example/realtime?model=process.env.DEPLOYMENT'' ''POST''
          [(''Authorization'', Bearer JUndefined), (''Content-Type'', Plain ''application/sdp'')]
          ''v=0 offer'',
        SetRemoteDescription 0 ''v=0 answer'']"
  by (simp add: run_defs)

text \<open>
  C2, at a run that fails. From the first render (no channel captured), with provisioning
  answered 200 and signaling answered 500, the \<^verbatim>\<open>catch\<close> logs the error and calls
  \<^verbatim>\<open>stopSession\<close>: the track is stopped, the connection closed and dropped, the playback
  element detached and dropped, the session inactive. The channel created in this run is
  never closed by \<^verbatim>\<open>dataChannel.close()\<close> and its handle stays in the state, because the
  \<^verbatim>\<open>dataChannel\<close> that \<^verbatim>\<open>stopSession\<close> tests is the null of the render.
\<close>

theorem signaling_failure_keeps_channel_handle:
  "fst (startSession_try demo_cfg demo_js (scenario 200 (Some credential_body) 500 Connecting)
          initial_world) = Some (Error ''Failed to establish WebRTC connection'')
   \<and> dataChannel (startSession demo_cfg demo_js (scenario 200 (Some credential_body) 500 Connecting)
        None initial_world) = Some 3
   \<and> peerConnection (startSession demo_cfg demo_js (scenario 200 (Some credential_body) 500 Connecting)
        None initial_world) = None
   \<and> audioElement (startSession demo_cfg demo_js (scenario 200 (Some credential_body) 500 Connecting)
        None initial_world) = None
   \<and> isSessionActive (startSession demo_cfg demo_js (scenario 200 (Some credential_body) 500 Connecting)
        None initial_world) = False
   \<and> effects (startSession demo_cfg demo_js (scenario 200 (Some credential_body) 500 Connecting)
        None initial_world) =
       [Fetch ''https://api.example/sessions'' ''POST''
          [(''api-key'', Plain ''key''), (''Content-Type'', Plain ''application/json'')]
          ''model;voice;'',
        New_RTCPeerConnection 0, Create_audio 1, Append_child 1, Set_ontrack 0, GetUserMedia,
        AddTrack 0 2, CreateDataChannel 0 ''azure-oai-events'' 3, CreateOffer 0,
        SetLocalDescription 0 ''v=0 offer'',
        Fetch ''https://rtc.example/realtime?model=process.env.DEPLOYMENT'' ''POST''
          [(''Authorization'', Bearer (JStr ''ek_123'')), (''Content-Type'', Plain ''application/sdp'')]
          ''v=0 offer'',
        Console_error ''Session error:'' (Some (Error ''Failed to establish WebRTC connection'')),
        Track_stop 2, PC_close 0, Clear_srcObject 1, Remove_child 1]"
  by (simp add: run_defs)

text \<open>
  C3, amended. On an open channel an outbound object is sent and logged with \<^verbatim>\<open>event_id\<close>
  and \<^verbatim>\<open>timestamp\<close> set: a truthy value it already carried is kept, an absent or falsy one
  (empty string, zero, null, false) is replaced by the generated one; every other field is
  as before. An inbound object is logged with \<^verbatim>\<open>timestamp\<close> treated the same way.
\<close>

theorem stamping_keeps_truthy_fields:
  "(readyState w dc = Open \<longrightarrow>
      (\<exists>fs'. sendClientEvent j (Some dc) now uuid (JObj fs) w =
                Inr (w\<lparr>events := JObj fs' # events w,
                       effects := effects w @ [DC_send dc (JSON_stringify j (JObj fs'))]\<rparr>)
         \<and> lookup fs' ''event_id'' =
             (if truthy (lookup fs ''event_id'') then lookup fs ''event_id'' else JStr uuid)
         \<and> lookup fs' ''timestamp'' =
             (if truthy (lookup fs ''timestamp'') then lookup fs ''timestamp'' else JStr now)
         \<and> (\<forall>k. k \<noteq> ''event_id'' \<and> k \<noteq> ''timestamp'' \<longrightarrow> lookup fs' k = lookup fs k)))
   \<and> (JSON_parse j data = Some (JObj fs) \<longrightarrow>
      (\<exists>fs'. handleMessage j now data w = Inr (w\<lparr>events := JObj fs' # events w\<rparr>)
         \<and> lookup fs' ''timestamp'' =
             (if truthy (lookup fs ''timestamp'') then lookup fs ''timestamp'' else JStr now)
         \<and> (\<forall>k. k \<noteq> ''timestamp'' \<longrightarrow> lookup fs' k = lookup fs k)))"
proof (intro conjI impI)
  assume o: "readyState w dc = Open"
  define e where "e = (if truthy (lookup fs ''event_id'') then lookup fs ''event_id'' else JStr uuid)"
  define fs1 where "fs1 = AList.update ''event_id'' e fs"
  define t where "t = (if truthy (lookup fs ''timestamp'') then lookup fs ''timestamp'' else JStr now)"
  define fs2 where "fs2 = AList.update ''timestamp'' t fs1"
  have same: "lookup fs1 ''timestamp'' = lookup fs ''timestamp''"
    by (simp add: fs1_def lookup_update)
  have a1: "or_assign (JObj fs) ''event_id'' (JStr uuid) = Inr (JObj fs1)"
    by (simp add: or_assign_obj fs1_def e_def)
  have a2: "or_assign (JObj fs1) ''timestamp'' (JStr now) = Inr (JObj fs2)"
    by (simp add: or_assign_obj fs2_def t_def same)
  have r: "sendClientEvent j (Some dc) now uuid (JObj fs) w =
          Inr (w\<lparr>events := JObj fs2 # events w,
                 effects := effects w @ [DC_send dc (JSON_stringify j (JObj fs2))]\<rparr>)"
    by (simp add: sendClientEvent_def o a1 a2 emit_def)
  have l1: "lookup fs2 ''event_id'' = e"
    by (simp add: fs2_def fs1_def lookup_update)
  have l2: "lookup fs2 ''timestamp'' = t"
    by (simp add: fs2_def lookup_update)
  have l3: "\<forall>k. k \<noteq> ''event_id'' \<and> k \<noteq> ''timestamp'' \<longrightarrow> lookup fs2 k = lookup fs k"
    by (simp add: fs2_def fs1_def lookup_update)
  show "\<exists>fs'. sendClientEvent j (Some dc) now uuid (JObj fs) w =
                Inr (w\<lparr>events := JObj fs' # events w,
                       effects := effects w @ [DC_send dc (JSON_stringify j (JObj fs'))]\<rparr>)
         \<and> lookup fs' ''event_id'' =
             (if truthy (lookup fs ''event_id'') then lookup fs ''event_id'' else JStr uuid)
         \<and> lookup fs' ''timestamp'' =
             (if truthy (lookup fs ''timestamp'') then lookup fs ''timestamp'' else JStr now)
         \<and> (\<forall>k. k \<noteq> ''event_id'' \<and> k \<noteq> ''timestamp'' \<longrightarrow> lookup fs' k = lookup fs k)"
    using r l1 l2 l3 unfolding e_def t_def by (intro exI [of _ fs2] conjI)
next
  assume p: "JSON_parse j data = Some (JObj fs)"
  define t where "t = (if truthy (lookup fs ''timestamp'') then lookup fs ''timestamp'' else JStr now)"
  define fs1 where "fs1 = AList.update ''timestamp'' t fs"
  have r: "handleMessage j now data w = Inr (w\<lparr>events := JObj fs1 # events w\<rparr>)"
    by (simp add: handleMessage_def p or_assign_obj t_def fs1_def)
  have l1: "lookup fs1 ''timestamp'' = t"
    by (simp add: fs1_def lookup_update)
  have l2: "\<forall>k. k \<noteq> ''timestamp'' \<longrightarrow> lookup fs1 k = lookup fs k"
    by (simp add: fs1_def lookup_update)
  show "\<exists>fs'. handleMessage j now data w = Inr (w\<lparr>events := JObj fs' # events w\<rparr>)
         \<and> lookup fs' ''timestamp'' =
             (if truthy (lookup fs ''timestamp'') then lookup fs ''timestamp'' else JStr now)
         \<and> (\<forall>k. k \<noteq> ''timestamp'' \<longrightarrow> lookup fs' k = lookup fs k)"
    using r l1 l2 unfolding t_def by (intro exI [of _ fs1] conjI)
qed

theorem stamping_keeps_truthy_fields_witness:
  "readyState active_world 3 = Open
   \<and> (\<exists>fs'. sendClientEvent demo_js (Some 3) ''10:15:00'' ''uuid-1''
               (JObj [(''type'', JStr ''response.create''), (''event_id'', JStr ''mine'')]) active_world =
                Inr (active_world\<lparr>events := JObj fs' # events active_world,
                       effects := effects active_world @ [DC_send 3 (JSON_stringify demo_js (JObj fs'))]\<rparr>)
         \<and> lookup fs' ''event_id'' = JStr ''mine''
         \<and> lookup fs' ''timestamp'' = JStr ''10:15:00''
         \<and> lookup fs' ''type'' = JStr ''response.create'')
   \<and> JSON_parse demo_js ''{}'' = Some (JObj [])
   \<and> (\<exists>fs'. handleMessage demo_js ''10:15:00'' ''{}'' active_world =
                Inr (active_world\<lparr>events := JObj fs' # events active_world\<rparr>)
         \<and> lookup fs' ''timestamp'' = JStr ''10:15:00'')"
proof -
  have h: "readyState active_world 3 = Open" "JSON_parse demo_js ''{}'' = Some (JObj [])"
    by (simp_all add: active_world_def demo_js_def)
  have l: "lookup [(''type'', JStr ''response.create''), (''event_id'', JStr ''mine'')] ''event_id'' = JStr ''mine''"
    "lookup [(''type'', JStr ''response.create''), (''event_id'', JStr ''mine'')] ''timestamp'' = JUndefined"
    "lookup [(''type'', JStr ''response.create''), (''event_id'', JStr ''mine'')] ''type'' = JStr ''response.create''"
    "lookup [] ''timestamp'' = JUndefined"
    by (simp_all add: lookup_def)
  note t = stamping_keeps_truthy_fields [of active_world 3 demo_js "''10:15:00''" "''uuid-1''" _ "''{}''"]
  from t [of "[(''type'', JStr ''response.create''), (''event_id'', JStr ''mine'')]",
          THEN conjunct1, rule_format, OF h(1)]
  obtain fs1 where a: "sendClientEvent demo_js (Some 3) ''10:15:00'' ''uuid-1''
               (JObj [(''type'', JStr ''response.create''), (''event_id'', JStr ''mine'')]) active_world =
                Inr (active_world\<lparr>events := JObj fs1 # events active_world,
                       effects := effects active_world @ [DC_send 3 (JSON_stringify demo_js (JObj fs1))]\<rparr>)"
      and a1: "lookup fs1 ''event_id'' =
         (if truthy (lookup [(''type'', JStr ''response.create''), (''event_id'', JStr ''mine'')] ''event_id'')
          then lookup [(''type'', JStr ''response.create''), (''event_id'', JStr ''mine'')] ''event_id''
          else JStr ''uuid-1'')"
      and a2: "lookup fs1 ''timestamp'' =
         (if truthy (lookup [(''type'', JStr ''response.create''), (''event_id'', JStr ''mine'')] ''timestamp'')
          then lookup [(''type'', JStr ''response.create''), (''event_id'', JStr ''mine'')] ''timestamp''
          else JStr ''10:15:00'')"
      and a3: "\<forall>k. k \<noteq> ''event_id'' \<and> k \<noteq> ''timestamp'' \<longrightarrow>
         lookup fs1 k = lookup [(''type'', JStr ''response.create''), (''event_id'', JStr ''mine'')] k"
    by (elim exE conjE)
  have a1': "lookup fs1 ''event_id'' = JStr ''mine''" using a1 by (simp add: l)
  have a2': "lookup fs1 ''timestamp'' = JStr ''10:15:00''" using a2 by (simp add: l)
  have a3': "lookup fs1 ''type'' = JStr ''response.create''"
    using a3 [rule_format, of "''type''"] by (simp add: l)
  from t [of "[]", THEN conjunct2, rule_format, OF h(2)]
  obtain fs2 where b: "handleMessage demo_js ''10:15:00'' ''{}'' active_world =
                Inr (active_world\<lparr>events := JObj fs2 # events active_world\<rparr>)"
      and b1: "lookup fs2 ''timestamp'' =
         (if truthy (lookup [] ''timestamp'') then lookup [] ''timestamp'' else JStr ''10:15:00'')"
    by (elim exE conjE)
  have b1': "lookup fs2 ''timestamp'' = JStr ''10:15:00''" using b1 by (simp add: l)
  have "\<exists>fs'. sendClientEvent demo_js (Some 3) ''10:15:00'' ''uuid-1''
               (JObj [(''type'', JStr ''response.create''), (''event_id'', JStr ''mine'')]) active_world =
                Inr (active_world\<lparr>events := JObj fs' # events active_world,
                       effects := effects active_world @ [DC_send 3 (JSON_stringify demo_js (JObj fs'))]\<rparr>)
         \<and> lookup fs' ''event_id'' = JStr ''mine''
         \<and> lookup fs' ''timestamp'' = JStr ''10:15:00''
         \<and> lookup fs' ''type'' = JStr ''response.create''"
    using a a1' a2' a3' by (intro exI [of _ fs1] conjI)
  moreover have "\<exists>fs'. handleMessage demo_js ''10:15:00'' ''{}'' active_world =
                Inr (active_world\<lparr>events := JObj fs' # events active_world\<rparr>)
         \<and> lookup fs' ''timestamp'' = JStr ''10:15:00''"
    using b b1' by (intro exI [of _ fs2] conjI)
  ultimately show ?thesis using h by (intro conjI)
qed

theorem falsy_event_id_is_overwritten:
  "readyState active_world 3 = Open
   \<and> sendClientEvent demo_js (Some 3) ''10:15:00'' ''uuid-1''
       (JObj [(''type'', JStr ''response.create''), (''event_id'', JStr '''')]) active_world =
     Inr (active_world\<lparr>events :=
            [JObj [(''type'', JStr ''response.create''), (''event_id'', JStr ''uuid-1''),
                   (''timestamp'', JStr ''10:15:00'')]],
            effects := [DC_send 3 ''type;event_id;timestamp;'']\<rparr>)"
  by (simp add: sendClientEvent_def or_assign_obj lookup_def emit_def active_world_def
        demo_js_def field_names_def)

text \<open>
  C4. A send while the channel is not open (no channel, or a channel in another state than
  open) returns normally for every message; the only change is one error on the console:
  the event log is as before and nothing is transmitted.
\<close>

theorem send_while_not_open_only_logs:
  assumes "\<not> channel_open captured w"
  shows "sendClientEvent j captured now uuid message w =
           Inr (w\<lparr>effects := effects w @
                  [Console_error ''Failed to send message - data channel not ready'' None]\<rparr>)"
  using assms by (simp add: sendClientEvent_def channel_open_def emit_def split: option.splits)

theorem send_while_not_open_only_logs_witness:
  "\<not> channel_open (Some 3) (active_world\<lparr>readyState := (\<lambda>h. Closing)\<rparr>)
   \<and> sendClientEvent demo_js (Some 3) ''10:15:00'' ''uuid-1'' response_create
        (active_world\<lparr>readyState := (\<lambda>h. Closing)\<rparr>) =
       Inr (active_world\<lparr>readyState := (\<lambda>h. Closing),
              effects := [Console_error ''Failed to send message - data channel not ready'' None]\<rparr>)"
proof -
  have h: "\<not> channel_open (Some 3) (active_world\<lparr>readyState := (\<lambda>h. Closing)\<rparr>)"
    by (simp add: channel_open_def)
  show ?thesis
    using h send_while_not_open_only_logs [OF h, of demo_js "''10:15:00''" "''uuid-1''" response_create]
    by (simp add: active_world_def)
qed

text \<open>
  C5. A send of a structured message (an object) while the channel is open puts exactly one
  entry at the front of the event log and transmits exactly one payload, the serialisation
  of that entry.
\<close>

theorem send_while_open_appends_one_transmits_one:
  assumes "captured = Some dc" and "readyState w dc = Open" and "is_object message"
  shows "\<exists>m'. sendClientEvent j captured now uuid message w =
            Inr (w\<lparr>events := m' # events w,
                   effects := effects w @ [DC_send dc (JSON_stringify j m')]\<rparr>)"
proof -
  from assms(3) obtain m1
    where m1: "or_assign message ''event_id'' (JStr uuid) = Inr m1" "is_object m1"
    using or_assign_object by blast
  then obtain m2 where m2: "or_assign m1 ''timestamp'' (JStr now) = Inr m2"
    using or_assign_object by blast
  show ?thesis using assms(1,2) m1 m2
    by (intro exI[of _ m2]) (simp add: sendClientEvent_def emit_def)
qed

theorem send_while_open_appends_one_transmits_one_witness:
  "Some 3 = Some (3::nat) \<and> readyState active_world 3 = Open \<and> is_object response_create
   \<and> (\<exists>m'. sendClientEvent demo_js (Some 3) ''10:15:00'' ''uuid-1'' response_create active_world =
            Inr (active_world\<lparr>events := m' # events active_world,
                   effects := effects active_world @ [DC_send 3 (JSON_stringify demo_js m')]\<rparr>))"
proof -
  have h: "readyState active_world 3 = Open" "is_object response_create"
    by (simp_all add: active_world_def response_create_def is_object_def)
  show ?thesis
    using h send_while_open_appends_one_transmits_one [OF refl h, of demo_js "''10:15:00''" "''uuid-1''"]
    by simp
qed

text \<open>
  C6, at a call that leaves a handle behind. \<^verbatim>\<open>stopSession\<close> clears the channel handle only
  when the \<^verbatim>\<open>dataChannel\<close> of its render is set (see \<open>stopSession_current_handle\<close> for the
  call from a current render). The call in the \<^verbatim>\<open>catch\<close> of \<^verbatim>\<open>startSession\<close>, started from
  the first render and failing at signaling, runs after \<^verbatim>\<open>setDataChannel(dc)\<close> with the null
  of that render: when it completes the connection and the playback element are null and
  the session is inactive, and the channel handle is still the channel of the failed run.
\<close>

theorem stopSession_from_catch_keeps_channel_handle:
  "startSession demo_cfg demo_js (scenario 200 (Some credential_body) 500 Connecting) None initial_world =
     stopSession None
       (emit (Console_error ''Session error:'' (Some (Error ''Failed to establish WebRTC connection'')))
          (snd (startSession_try demo_cfg demo_js (scenario 200 (Some credential_body) 500 Connecting)
                  initial_world)))
   \<and> dataChannel (snd (startSession_try demo_cfg demo_js
          (scenario 200 (Some credential_body) 500 Connecting) initial_world)) = Some 3
   \<and> dataChannel (stopSession None
          (emit (Console_error ''Session error:'' (Some (Error ''Failed to establish WebRTC connection'')))
             (snd (startSession_try demo_cfg demo_js (scenario 200 (Some credential_body) 500 Connecting)
                     initial_world)))) = Some 3
   \<and> peerConnection (stopSession None
          (emit (Console_error ''Session error:'' (Some (Error ''Failed to establish WebRTC connection'')))
             (snd (startSession_try demo_cfg demo_js (scenario 200 (Some credential_body) 500 Connecting)
                     initial_world)))) = None
   \<and> audioElement (stopSession None
          (emit (Console_error ''Session error:'' (Some (Error ''Failed to establish WebRTC connection'')))
             (snd (startSession_try demo_cfg demo_js (scenario 200 (Some credential_body) 500 Connecting)
                     initial_world)))) = None
   \<and> isSessionActive (stopSession None
          (emit (Console_error ''Session error:'' (Some (Error ''Failed to establish WebRTC connection'')))
             (snd (startSession_try demo_cfg demo_js (scenario 200 (Some credential_body) 500 Connecting)
                     initial_world)))) = False"
  by (simp add: run_defs)

text \<open>
  C7, amended. When the provisioning response has a status outside 200 to 299, the run
  constructs no connection (it creates no browser object at all) and the session is
  inactive afterwards. From an idle state (inactive, no connection, no playback element,
  no channel held by the render) the state is as before: the run only adds the request
  and the logged error. From any other state the run is the request, the logged error and
  then \<^verbatim>\<open>stopSession\<close>, which tears down the handles that state holds.
\<close>

theorem provisioning_non_2xx_builds_no_connection:
  assumes "session_fetch env = Some r" and "\<not> ok (resp_status r)"
  shows "filter is_new_connection (new_effects w (startSession cfg j env captured w)) = []
     \<and> next_handle (startSession cfg j env captured w) = next_handle w
     \<and> \<not> isSessionActive (startSession cfg j env captured w)
     \<and> (\<not> isSessionActive w \<and> captured = None \<and> peerConnection w = None \<and> audioElement w = None
          \<longrightarrow> startSession cfg j env captured w =
                w\<lparr>effects := effects w @
                  [provisioning_request cfg j,
                   Console_error ''Session error:'' (Some (Error ''Failed to create session''))]\<rparr>)
     \<and> startSession cfg j env captured w =
         stopSession captured
           (emit (Console_error ''Session error:'' (Some (Error ''Failed to create session'')))
              (emit (provisioning_request cfg j) w))"
proof -
  define w' where "w' = emit (Console_error ''Session error:'' (Some (Error ''Failed to create session'')))
       (emit (provisioning_request cfg j) w)"
  have s: "startSession cfg j env captured w = stopSession captured w'"
    unfolding w'_def using assms by (rule start_not_ok)
  have p: "fst (provision cfg j env w) = Inl (Error ''Failed to create session'')"
    using assms by (simp add: provision_not_ok)
  have 1: "filter is_new_connection (new_effects w (startSession cfg j env captured w)) = []"
    by (simp add: start_new_effects(2) p)
  have 2: "next_handle (startSession cfg j env captured w) = next_handle w"
    by (simp add: s stopSession_refs w'_def emit_def)
  have 3: "\<not> isSessionActive (startSession cfg j env captured w)"
    by (simp add: s stopSession_refs)
  have 4: "startSession cfg j env captured w =
                w\<lparr>effects := effects w @
                  [provisioning_request cfg j,
                   Console_error ''Session error:'' (Some (Error ''Failed to create session''))]\<rparr>"
    if "\<not> isSessionActive w \<and> captured = None \<and> peerConnection w = None \<and> audioElement w = None"
  proof -
    have "stopSession None w' = w'"
      using that by (intro idle_teardown) (simp_all add: w'_def emit_def)
    moreover have "startSession cfg j env captured w = stopSession None w'"
      using s that by simp
    moreover have "w' = w\<lparr>effects := effects w @
                  [provisioning_request cfg j,
                   Console_error ''Session error:'' (Some (Error ''Failed to create session''))]\<rparr>"
      by (simp add: w'_def emit_def)
    ultimately show ?thesis by simp
  qed
  from 1 2 3 4 s [unfolded w'_def] show ?thesis by (intro conjI impI)
qed

theorem provisioning_non_2xx_builds_no_connection_witness:
  "session_fetch (scenario 500 None 200 Connecting) = Some \<lparr>resp_status = 500, resp_body = None\<rparr>
   \<and> \<not> ok (resp_status \<lparr>resp_status = 500, resp_body = None :: jsval option\<rparr>)
   \<and> filter is_new_connection
        (new_effects initial_world
           (startSession demo_cfg demo_js (scenario 500 None 200 Connecting) None initial_world)) = []
   \<and> next_handle (startSession demo_cfg demo_js (scenario 500 None 200 Connecting) None initial_world) = 0
   \<and> \<not> isSessionActive (startSession demo_cfg demo_js (scenario 500 None 200 Connecting) None initial_world)
   \<and> startSession demo_cfg demo_js (scenario 500 None 200 Connecting) None initial_world =
       initial_world\<lparr>effects :=
         [Fetch ''https://api.example/sessions'' ''POST''
            [(''api-key'', Plain ''key''), (''Content-Type'', Plain ''application/json'')]
            ''model;voice;'',
          Console_error ''Session error:'' (Some (Error ''Failed to create session''))]\<rparr>"
proof -
  have h: "session_fetch (scenario 500 None 200 Connecting) = Some \<lparr>resp_status = 500, resp_body = None\<rparr>"
    "\<not> ok (resp_status \<lparr>resp_status = 500, resp_body = None :: jsval option\<rparr>)"
    by (simp_all add: scenario_def ok_def)
  have i: "\<not> isSessionActive initial_world \<and> (None :: handle option) = None
      \<and> peerConnection initial_world = None \<and> audioElement initial_world = None"
    "next_handle initial_world = 0" "effects initial_world = []"
    by (simp_all add: initial_world_def)
  have q: "provisioning_request demo_cfg demo_js =
      Fetch ''https://api.example/sessions'' ''POST''
            [(''api-key'', Plain ''key''), (''Content-Type'', Plain ''application/json'')]
            ''model;voice;''"
    by (simp add: provisioning_request_def demo_cfg_def demo_js_def field_names_def)
  note t = provisioning_non_2xx_builds_no_connection [OF h, of initial_world demo_cfg demo_js None]
  from t have 1: "filter is_new_connection
        (new_effects initial_world
           (startSession demo_cfg demo_js (scenario 500 None 200 Connecting) None initial_world)) = []"
    by (rule conjunct1)
  from t have 2: "next_handle (startSession demo_cfg demo_js (scenario 500 None 200 Connecting) None initial_world) = 0"
    unfolding i(2) by (elim conjE)
  from t have 3: "\<not> isSessionActive (startSession demo_cfg demo_js (scenario 500 None 200 Connecting) None initial_world)"
    by (elim conjE)
  from t [THEN conjunct2, THEN conjunct2, THEN conjunct2, THEN conjunct1, rule_format, OF i(1)]
  have 4: "startSession demo_cfg demo_js (scenario 500 None 200 Connecting) None initial_world =
       initial_world\<lparr>effects :=
         [Fetch ''https://api.example/sessions'' ''POST''
            [(''api-key'', Plain ''key''), (''Content-Type'', Plain ''application/json'')]
            ''model;voice;'',
          Console_error ''Session error:'' (Some (Error ''Failed to create session''))]\<rparr>"
    unfolding i(3) q by simp
  from h 1 2 3 4 show ?thesis by (intro conjI)
qed


theorem provisioning_non_2xx_tears_down_retained_channel:
  "isSessionActive
      (startSession demo_cfg demo_js (scenario 200 (Some credential_body) 500 Connecting) None
         initial_world) = False
   \<and> dataChannel
      (startSession demo_cfg demo_js (scenario 200 (Some credential_body) 500 Connecting) None
         initial_world) = Some 3
   \<and> \<not> ok 500
   \<and> dataChannel
      (startSession demo_cfg demo_js (scenario 500 None 200 Connecting) (Some 3)
         (startSession demo_cfg demo_js (scenario 200 (Some credential_body) 500 Connecting) None
            initial_world)) = None
   \<and> new_effects
      (startSession demo_cfg demo_js (scenario 200 (Some credential_body) 500 Connecting) None
         initial_world)
      (startSession demo_cfg demo_js (scenario 500 None 200 Connecting) (Some 3)
         (startSession demo_cfg demo_js (scenario 200 (Some credential_body) 500 Connecting) None
            initial_world)) =
     [Fetch ''https://api.example/sessions'' ''POST''
        [(''api-key'', Plain ''key''), (''Content-Type'', Plain ''application/json'')]
        ''model;voice;'',
      Console_error ''Session error:'' (Some (Error ''Failed to create session'')),
      DC_close 3]"
  by (simp add: run_defs new_effects_def)

text \<open>
  C8. \<^verbatim>\<open>sendTextMessage(m)\<close> is two sends in sequence through \<^verbatim>\<open>sendClientEvent\<close>: first the
  conversation item whose input text is \<open>m\<close>, then the response request. On an open channel
  that is two payloads in this order and two log entries, the later one in front; on a
  channel that is not open it is two console errors.
\<close>

theorem sendText_is_two_sequential_sends:
  "sendTextMessage j captured (now1, uuid1) (now2, uuid2) (JStr m) w =
     (case sendClientEvent j captured now1 uuid1 (text_event (JStr m)) w of
        Inl e \<Rightarrow> Inl e
      | Inr w1 \<Rightarrow> sendClientEvent j captured now2 uuid2 response_create w1)
   \<and> (captured = Some dc \<and> readyState w dc = Open \<longrightarrow>
        sendTextMessage j captured (now1, uuid1) (now2, uuid2) (JStr m) w =
          Inr (w\<lparr>events :=
                   JObj [(''type'', JStr ''response.create''),
                         (''event_id'', JStr uuid2), (''timestamp'', JStr now2)]
                 # JObj [(''type'', JStr ''conversation.item.create''),
                         (''item'', JObj [(''type'', JStr ''message''), (''role'', JStr ''user''),
                            (''content'', JArr [JObj [(''type'', JStr ''input_text''),
                                                      (''text'', JStr m)]] [])]),
                         (''event_id'', JStr uuid1), (''timestamp'', JStr now1)]
                 # events w,
                 effects := effects w @
                   [DC_send dc (JSON_stringify j
                      (JObj [(''type'', JStr ''conversation.item.create''),
                             (''item'', JObj [(''type'', JStr ''message''), (''role'', JStr ''user''),
                                (''content'', JArr [JObj [(''type'', JStr ''input_text''),
                                                          (''text'', JStr m)]] [])]),
                             (''event_id'', JStr uuid1), (''timestamp'', JStr now1)])),
                    DC_send dc (JSON_stringify j
                      (JObj [(''type'', JStr ''response.create''),
                             (''event_id'', JStr uuid2), (''timestamp'', JStr now2)]))]\<rparr>))
   \<and> (\<not> channel_open captured w \<longrightarrow>
        sendTextMessage j captured (now1, uuid1) (now2, uuid2) (JStr m) w =
          Inr (w\<lparr>effects := effects w @
                 [Console_error ''Failed to send message - data channel not ready'' None,
                  Console_error ''Failed to send message - data channel not ready'' None]\<rparr>))"
proof (intro conjI impI)
  show "sendTextMessage j captured (now1, uuid1) (now2, uuid2) (JStr m) w =
     (case sendClientEvent j captured now1 uuid1 (text_event (JStr m)) w of
        Inl e \<Rightarrow> Inl e
      | Inr w1 \<Rightarrow> sendClientEvent j captured now2 uuid2 response_create w1)"
    by (simp add: sendTextMessage_def cong: sum.case_cong)
next
  assume "captured = Some dc \<and> readyState w dc = Open"
  then show "sendTextMessage j captured (now1, uuid1) (now2, uuid2) (JStr m) w =
          Inr (w\<lparr>events :=
                   JObj [(''type'', JStr ''response.create''),
                         (''event_id'', JStr uuid2), (''timestamp'', JStr now2)]
                 # JObj [(''type'', JStr ''conversation.item.create''),
                         (''item'', JObj [(''type'', JStr ''message''), (''role'', JStr ''user''),
                            (''content'', JArr [JObj [(''type'', JStr ''input_text''),
                                                      (''text'', JStr m)]] [])]),
                         (''event_id'', JStr uuid1), (''timestamp'', JStr now1)]
                 # events w,
                 effects := effects w @
                   [DC_send dc (JSON_stringify j
                      (JObj [(''type'', JStr ''conversation.item.create''),
                             (''item'', JObj [(''type'', JStr ''message''), (''role'', JStr ''user''),
                                (''content'', JArr [JObj [(''type'', JStr ''input_text''),
                                                          (''text'', JStr m)]] [])]),
                             (''event_id'', JStr uuid1), (''timestamp'', JStr now1)])),
                    DC_send dc (JSON_stringify j
                      (JObj [(''type'', JStr ''response.create''),
                             (''event_id'', JStr uuid2), (''timestamp'', JStr now2)]))]\<rparr>)"
    by (simp add: sendTextMessage_def sendClientEvent_def text_event_def response_create_def
          or_assign_obj lookup_def emit_def)
next
  assume "\<not> channel_open captured w"
  then show "sendTextMessage j captured (now1, uuid1) (now2, uuid2) (JStr m) w =
          Inr (w\<lparr>effects := effects w @
                 [Console_error ''Failed to send message - data channel not ready'' None,
                  Console_error ''Failed to send message - data channel not ready'' None]\<rparr>)"
    by (simp add: sendTextMessage_def sendClientEvent_def channel_open_def emit_def
          split: option.splits)
qed

theorem sendText_is_two_sequential_sends_witness:
  "Some 3 = Some (3::nat) \<and> readyState active_world 3 = Open
   \<and> sendTextMessage demo_js (Some 3) (''10:15:00'', ''uuid-1'') (''10:15:01'', ''uuid-2'')
        (JStr ''hello'') active_world =
       Inr (active_world\<lparr>events :=
              [JObj [(''type'', JStr ''response.create''),
                     (''event_id'', JStr ''uuid-2''), (''timestamp'', JStr ''10:15:01'')],
               JObj [(''type'', JStr ''conversation.item.create''),
                     (''item'', JObj [(''type'', JStr ''message''), (''role'', JStr ''user''),
                        (''content'', JArr [JObj [(''type'', JStr ''input_text''),
                                                  (''text'', JStr ''hello'')]] [])]),
                     (''event_id'', JStr ''uuid-1''), (''timestamp'', JStr ''10:15:00'')]],
              effects := [DC_send 3 ''type;item;event_id;timestamp;'',
                          DC_send 3 ''type;event_id;timestamp;'']\<rparr>)
   \<and> \<not> channel_open None initial_world
   \<and> sendTextMessage demo_js None (''10:15:00'', ''uuid-1'') (''10:15:01'', ''uuid-2'')
        (JStr ''hello'') initial_world =
       Inr (initial_world\<lparr>effects :=
              [Console_error ''Failed to send message - data channel not ready'' None,
               Console_error ''Failed to send message - data channel not ready'' None]\<rparr>)"
proof -
  have h: "Some 3 = Some (3::nat) \<and> readyState active_world 3 = Open"
    "\<not> channel_open None initial_world"
    by (simp_all add: active_world_def channel_open_def)
  have e: "events active_world = []" "effects active_world = []" "effects initial_world = []"
    by (simp_all add: active_world_def initial_world_def)
  have s: "JSON_stringify demo_js (JObj [(''type'', JStr ''conversation.item.create''),
                     (''item'', JObj [(''type'', JStr ''message''), (''role'', JStr ''user''),
                        (''content'', JArr [JObj [(''type'', JStr ''input_text''),
                                                  (''text'', JStr ''hello'')]] [])]),
                     (''event_id'', JStr ''uuid-1''), (''timestamp'', JStr ''10:15:00'')])
            = ''type;item;event_id;timestamp;''"
    "JSON_stringify demo_js (JObj [(''type'', JStr ''response.create''),
                     (''event_id'', JStr ''uuid-2''), (''timestamp'', JStr ''10:15:01'')])
            = ''type;event_id;timestamp;''"
    by (simp_all add: demo_js_def field_names_def)
  note t = sendText_is_two_sequential_sends [of demo_js _ "''10:15:00''" "''uuid-1''"
          "''10:15:01''" "''uuid-2''" "''hello''"]
  from t [of "Some 3" active_world 3, THEN conjunct2, THEN conjunct1, rule_format, OF h(1)]
  have a: "sendTextMessage demo_js (Some 3) (''10:15:00'', ''uuid-1'') (''10:15:01'', ''uuid-2'')
        (JStr ''hello'') active_world =
       Inr (active_world\<lparr>events :=
              [JObj [(''type'', JStr ''response.create''),
                     (''event_id'', JStr ''uuid-2''), (''timestamp'', JStr ''10:15:01'')],
               JObj [(''type'', JStr ''conversation.item.create''),
                     (''item'', JObj [(''type'', JStr ''message''), (''role'', JStr ''user''),
                        (''content'', JArr [JObj [(''type'', JStr ''input_text''),
                                                  (''text'', JStr ''hello'')]] [])]),
                     (''event_id'', JStr ''uuid-1''), (''timestamp'', JStr ''10:15:00'')]],
              effects := [DC_send 3 ''type;item;event_id;timestamp;'',
                          DC_send 3 ''type;event_id;timestamp;'']\<rparr>)"
    unfolding e s by simp
  from t [of None initial_world 0, THEN conjunct2, THEN conjunct2, rule_format, OF h(2)]
  have b: "sendTextMessage demo_js None (''10:15:00'', ''uuid-1'') (''10:15:01'', ''uuid-2'')
        (JStr ''hello'') initial_world =
       Inr (initial_world\<lparr>effects :=
              [Console_error ''Failed to send message - data channel not ready'' None,
               Console_error ''Failed to send message - data channel not ready'' None]\<rparr>)"
    unfolding e by simp
  from h a b show ?thesis by blast
qed

text \<open>
  C9. \<^verbatim>\<open>startSession\<close> never touches the event log, and the only payload it ever
  transmits is the serialisation of the configuration message exactly as written in the
  source, which has type \<^verbatim>\<open>session.update\<close> and neither \<^verbatim>\<open>event_id\<close> nor \<^verbatim>\<open>timestamp\<close>;
  it is sent on the channel created in this run when the run reaches line 97 and finds
  the channel open. The same message given to \<^verbatim>\<open>sendClientEvent\<close> on an open channel is
  sent with both fields added and is put in front of the log.
\<close>

theorem initial_config_bypasses_send:
  "events (startSession cfg j env captured w) = events w
   \<and> filter is_send (new_effects w (startSession cfg j env captured w)) =
       (if fst (startSession_try cfg j env w) = None \<and> dc_ready env = Open
        then [DC_send (next_handle w + (if microphone env then 3 else 2)) (JSON_stringify j initEvent)]
        else [])
   \<and> (fst (startSession_try cfg j env w) = None \<longrightarrow>
        dataChannel (startSession cfg j env captured w) =
          Some (next_handle w + (if microphone env then 3 else 2)))
   \<and> get_prop initEvent ''type'' = Inr (JStr ''session.update'')
   \<and> get_prop initEvent ''event_id'' = Inr JUndefined
   \<and> get_prop initEvent ''timestamp'' = Inr JUndefined
   \<and> (readyState w c = Open \<longrightarrow>
        sendClientEvent j (Some c) now uuid initEvent w =
          Inr (w\<lparr>events :=
                   JObj [(''type'', JStr ''session.update''),
                         (''session'', JObj [(''instructions'',
                            JStr ''You are a helpful AI assistant responding in natural, engaging language.'')]),
                         (''event_id'', JStr uuid), (''timestamp'', JStr now)] # events w,
                 effects := effects w @
                   [DC_send c (JSON_stringify j
                      (JObj [(''type'', JStr ''session.update''),
                             (''session'', JObj [(''instructions'',
                                JStr ''You are a helpful AI assistant responding in natural, engaging language.'')]),
                             (''event_id'', JStr uuid), (''timestamp'', JStr now)]))]\<rparr>))"
proof (intro conjI impI)
  show "events (startSession cfg j env captured w) = events w"
    by (rule start_unchanged)
  show "filter is_send (new_effects w (startSession cfg j env captured w)) =
       (if fst (startSession_try cfg j env w) = None \<and> dc_ready env = Open
        then [DC_send (next_handle w + (if microphone env then 3 else 2)) (JSON_stringify j initEvent)]
        else [])"
    by (rule start_sends)
  show "dataChannel (startSession cfg j env captured w) =
          Some (next_handle w + (if microphone env then 3 else 2))"
    if "fst (startSession_try cfg j env w) = None"
    using that by (rule start_channel)
  show "get_prop initEvent ''type'' = Inr (JStr ''session.update'')"
    "get_prop initEvent ''event_id'' = Inr JUndefined"
    "get_prop initEvent ''timestamp'' = Inr JUndefined"
    by (simp_all add: initEvent_def lookup_def)
  show "sendClientEvent j (Some c) now uuid initEvent w =
          Inr (w\<lparr>events :=
                   JObj [(''type'', JStr ''session.update''),
                         (''session'', JObj [(''instructions'',
                            JStr ''You are a helpful AI assistant responding in natural, engaging language.'')]),
                         (''event_id'', JStr uuid), (''timestamp'', JStr now)] # events w,
                 effects := effects w @
                   [DC_send c (JSON_stringify j
                      (JObj [(''type'', JStr ''session.update''),
                             (''session'', JObj [(''instructions'',
                                JStr ''You are a helpful AI assistant responding in natural, engaging language.'')]),
                             (''event_id'', JStr uuid), (''timestamp'', JStr now)]))]\<rparr>)"
    if "readyState w c = Open"
    using that by (simp add: sendClientEvent_def initEvent_def or_assign_obj lookup_def emit_def)
qed

theorem initial_config_bypasses_send_witness:
  "filter is_send (new_effects initial_world
       (startSession demo_cfg demo_js (scenario 200 (Some credential_body) 200 Open) None initial_world)) =
     [DC_send 3 ''type;session;'']
   \<and> events (startSession demo_cfg demo_js (scenario 200 (Some credential_body) 200 Open) None initial_world) = []
   \<and> fst (startSession_try demo_cfg demo_js (scenario 200 (Some credential_body) 200 Open) initial_world) = None
   \<and> dataChannel (startSession demo_cfg demo_js (scenario 200 (Some credential_body) 200 Open) None initial_world) =
       Some 3
   \<and> readyState active_world 3 = Open
   \<and> sendClientEvent demo_js (Some 3) ''10:15:00'' ''uuid-1'' initEvent active_world =
       Inr (active_world\<lparr>events :=
              [JObj [(''type'', JStr ''session.update''),
                     (''session'', JObj [(''instructions'',
                        JStr ''You are a helpful AI assistant responding in natural, engaging language.'')]),
                     (''event_id'', JStr ''uuid-1''), (''timestamp'', JStr ''10:15:00'')]],
              effects := [DC_send 3 ''type;session;event_id;timestamp;'']\<rparr>)"
proof -
  let ?env = "scenario 200 (Some credential_body) 200 Open"
  have h: "fst (startSession_try demo_cfg demo_js ?env initial_world) = None"
    "readyState active_world 3 = Open"
    by (simp_all add: try_open active_world_def)
  have e: "dc_ready ?env = Open" "microphone ?env" "next_handle initial_world = 0"
    "events initial_world = []" "events active_world = []" "effects active_world = []"
    "JSON_stringify demo_js initEvent = ''type;session;''"
    "JSON_stringify demo_js (JObj [(''type'', JStr ''session.update''),
                     (''session'', JObj [(''instructions'',
                        JStr ''You are a helpful AI assistant responding in natural, engaging language.'')]),
                     (''event_id'', JStr ''uuid-1''), (''timestamp'', JStr ''10:15:00'')])
       = ''type;session;event_id;timestamp;''"
    by (simp_all add: scenario_def initial_world_def active_world_def demo_js_def field_names_def
          initEvent_def)
  note a = initial_config_bypasses_send [where cfg = demo_cfg and j = demo_js and env = ?env
      and captured = None and now = "''10:15:00''" and uuid = "''uuid-1''"]
  note t = a [where w = initial_world and c = 3]
  note u = a [where w = active_world and c = 3]
  from t have 1: "events (startSession demo_cfg demo_js ?env None initial_world) = []"
    unfolding e by (elim conjE)
  from t [THEN conjunct2, THEN conjunct1]
  have 2: "filter is_send (new_effects initial_world
       (startSession demo_cfg demo_js ?env None initial_world)) = [DC_send 3 ''type;session;'']"
    by (simp add: h e)
  from t [THEN conjunct2, THEN conjunct2, THEN conjunct1, rule_format, OF h(1)]
  have 3: "dataChannel (startSession demo_cfg demo_js ?env None initial_world) = Some 3"
    by (simp add: e)
  from u [THEN conjunct2, THEN conjunct2, THEN conjunct2, THEN conjunct2, THEN conjunct2,
          THEN conjunct2, rule_format, OF h(2)]
  have 4: "sendClientEvent demo_js (Some 3) ''10:15:00'' ''uuid-1'' initEvent active_world =
       Inr (active_world\<lparr>events :=
              [JObj [(''type'', JStr ''session.update''),
                     (''session'', JObj [(''instructions'',
                        JStr ''You are a helpful AI assistant responding in natural, engaging language.'')]),
                     (''event_id'', JStr ''uuid-1''), (''timestamp'', JStr ''10:15:00'')]],
              effects := [DC_send 3 ''type;session;event_id;timestamp;'']\<rparr>)"
    by (simp add: e)
  from 1 2 3 4 h show ?thesis by (intro conjI)
qed

text \<open>
  C10. The requests a run of \<^verbatim>\<open>startSession\<close> makes are the provisioning request, whose
  body is the serialisation of \<^verbatim>\<open>{model, voice}\<close> with model the literal string
  \<^verbatim>\<open>process.env.DEPLOYMENT\<close>, and, when the run gets that far, the signaling request, whose
  URL ends in \<^verbatim>\<open>?model=process.env.DEPLOYMENT\<close>: the same constant, a quoted literal.
\<close>

theorem model_identifier_is_the_quoted_literal:
  "DEPLOYMENT = ''process.env.DEPLOYMENT''
   \<and> filter is_fetch (new_effects w (startSession cfg j env captured w)) =
       Fetch (SESSIONS_URL cfg) ''POST''
         [(''api-key'', Plain (API_KEY cfg)), (''Content-Type'', Plain ''application/json'')]
         (JSON_stringify j
            (JObj [(''model'', JStr ''process.env.DEPLOYMENT''), (''voice'', JStr ''verse'')]))
       # (case fst (provision cfg j env w) of
            Inl e \<Rightarrow> []
          | Inr key \<Rightarrow>
              (case create_offer env of
                 None \<Rightarrow> []
               | Some sdp \<Rightarrow>
                   if set_local_ok env
                   then [Fetch (WEBRTC_URL cfg @ ''?model=process.env.DEPLOYMENT'') ''POST''
                           [(''Authorization'', Bearer key),
                            (''Content-Type'', Plain ''application/sdp'')]
                           sdp]
                   else []))"
  by (simp add: start_new_effects(1) provisioning_request_def signaling_request_def
        DEPLOYMENT_def VOICE_def split: sum.splits option.splits)

theorem model_identifier_is_the_quoted_literal_witness:
  "filter is_fetch (new_effects initial_world
       (startSession demo_cfg demo_js (scenario 200 (Some credential_body) 200 Open) None initial_world)) =
     [Fetch ''https://api.example/sessions'' ''POST''
        [(''api-key'', Plain ''key''), (''Content-Type'', Plain ''application/json'')]
        (JSON_stringify demo_js
           (JObj [(''model'', JStr ''process.env.DEPLOYMENT''), (''voice'', JStr ''verse'')])),
      Fetch ''https://rtc.example/realtime?model=process.env.DEPLOYMENT'' ''POST''
        [(''Authorization'', Bearer (JStr ''ek_123'')), (''Content-Type'', Plain ''application/sdp'')]
        ''v=0 offer'']"
proof -
  let ?env = "scenario 200 (Some credential_body) 200 Open"
  have e: "fst (provision demo_cfg demo_js ?env initial_world) = Inr (JStr ''ek_123'')"
    "create_offer ?env = Some ''v=0 offer''" "set_local_ok ?env"
    "SESSIONS_URL demo_cfg = ''https://api.example/sessions''"
    "WEBRTC_URL demo_cfg = ''https://rtc.example/realtime''" "API_KEY demo_cfg = ''key''"
    by (simp_all add: provision_def scenario_def ok_def credential_body_def client_secret_value_def
          opt_chain_def lookup_def demo_cfg_def Let_def)
  from model_identifier_is_the_quoted_literal [where cfg = demo_cfg and j = demo_js
      and env = ?env and captured = None and w = initial_world, THEN conjunct2]
  show ?thesis by (simp add: e)
qed

end
